theory Spec2Isabelle
  imports Main "HOL-Library.Word"
begin

section \<open>JavaScript values\<close>

text \<open>
  A JavaScript string is a sequence of UTF-16 code units; a \<open>Uint8Array\<close> is a sequence
  of bytes. String literals of the source are written with \<open>js\<close>; the Chinese texts of
  the notifications are written as their code units.
\<close>

type_synonym jschar = "16 word"
type_synonym jsstring = "jschar list"
type_synonym byte = "8 word"

definition js :: "string \<Rightarrow> jsstring" where
  "js s = map (\<lambda>c. of_nat (of_char c)) s"

text \<open>\<open>String.prototype.startsWith\<close> with a search string and no position.\<close>

fun startsWith :: "jsstring \<Rightarrow> jsstring \<Rightarrow> bool" where
  "startsWith s [] = True"
| "startsWith [] (p # ps) = False"
| "startsWith (c # cs) (p # ps) = (c = p \<and> startsWith cs ps)"

text \<open>
  Exceptions. \<open>Error m\<close> is \<open>new Error(m)\<close> of the source; \<open>InvalidCharacterError\<close> is the
  \<open>DOMException\<close> that \<open>atob\<close> throws; \<open>Rejected m\<close> is any other exception or promise
  rejection raised by the platform (a failed \<open>fetch\<close>, a body that is not JSON, an audio
  stream that does not decode), with its message.
\<close>

datatype exn = Error jsstring | InvalidCharacterError | Rejected jsstring

section \<open>Base64\<close>

subsection \<open>The platform decoder \<open>atob\<close>\<close>

text \<open>
  \<open>atob\<close> is the browser's forgiving-base64 decoder: it removes ASCII whitespace, removes
  one or two trailing \<open>=\<close> when the length is a multiple of four, fails when the length
  is then 1 modulo 4 or a character is outside the alphabet, and reads the rest six bits
  at a time, dropping the bits of an incomplete byte at the end. Its result is a binary
  string: one code unit below 256 for each byte.
\<close>

definition ascii_whitespace :: "jschar \<Rightarrow> bool" where
  "ascii_whitespace c = (c = 9 \<or> c = 10 \<or> c = 12 \<or> c = 13 \<or> c = 32)"

definition b64_index :: "jschar \<Rightarrow> nat option" where
  "b64_index c =
     (let n = unat c in
      if 65 \<le> n \<and> n \<le> 90 then Some (n - 65)
      else if 97 \<le> n \<and> n \<le> 122 then Some (n - 71)
      else if 48 \<le> n \<and> n \<le> 57 then Some (n + 4)
      else if n = 43 then Some 62
      else if n = 47 then Some 63
      else None)"

definition strip_padding :: "jsstring \<Rightarrow> jsstring" where
  "strip_padding d =
     (if length d mod 4 = 0 then
        (if 2 \<le> length d \<and> last d = 61 \<and> last (butlast d) = 61 then butlast (butlast d)
         else if d \<noteq> [] \<and> last d = 61 then butlast d
         else d)
      else d)"

fun decode_sextets :: "nat list \<Rightarrow> nat list" where
  "decode_sextets (a # b # c # d # rest) =
     (let n = ((a * 64 + b) * 64 + c) * 64 + d
      in (n div 65536) # (n div 256 mod 256) # (n mod 256) # decode_sextets rest)"
| "decode_sextets [a, b, c] =
     (let n = ((a * 64 + b) * 64 + c) div 4 in [n div 256, n mod 256])"
| "decode_sextets [a, b] = [(a * 64 + b) div 16]"
| "decode_sextets [a] = []"
| "decode_sextets [] = []"

definition atob :: "jsstring \<Rightarrow> exn + jsstring" where
  "atob data =
     (let d = strip_padding (filter (\<lambda>c. \<not> ascii_whitespace c) data) in
      if length d mod 4 = 1 then Inl InvalidCharacterError
      else case those (map b64_index d) of
             None \<Rightarrow> Inl InvalidCharacterError
           | Some ss \<Rightarrow> Inr (map of_nat (decode_sextets ss)))"

text \<open>The strings that \<open>atob\<close> accepts.\<close>

definition valid_base64 :: "jsstring \<Rightarrow> bool" where
  "valid_base64 data =
     (let d = strip_padding (filter (\<lambda>c. \<not> ascii_whitespace c) data) in
      length d mod 4 \<noteq> 1 \<and> list_all (\<lambda>c. b64_index c \<noteq> None) d)"

subsection \<open>The transport encoding\<close>

text \<open>
  Modelled from the spec: the server that encodes the audio bytes for transport is not
  among the source files; the spec names the transport encoding of the \<open>AudioArtifact\<close>
  as base64 (field \<open>audio_base64\<close>). \<open>b64encode\<close> is standard base64: the bytes read six
  bits at a time, the last group filled with zero bits, each sextet written as its
  alphabet character, and \<open>=\<close> added up to a multiple of four characters.
\<close>

definition b64_char :: "nat \<Rightarrow> jschar" where
  "b64_char v =
     of_nat (if v < 26 then 65 + v
             else if v < 52 then 71 + v
             else if v < 62 then v - 4
             else if v = 62 then 43
             else 47)"

fun sextets :: "byte list \<Rightarrow> nat list" where
  "sextets (a # b # c # rest) =
     (let n = unat a * 65536 + unat b * 256 + unat c
      in [n div 262144, n div 4096 mod 64, n div 64 mod 64, n mod 64] @ sextets rest)"
| "sextets [a, b] =
     (let n = (unat a * 256 + unat b) * 4 in [n div 4096, n div 64 mod 64, n mod 64])"
| "sextets [a] = (let n = unat a * 16 in [n div 64, n mod 64])"
| "sextets [] = []"

definition padding :: "nat \<Rightarrow> jsstring" where
  "padding len = (if len mod 3 = 1 then [61, 61] else if len mod 3 = 2 then [61] else [])"

definition b64encode :: "byte list \<Rightarrow> jsstring" where
  "b64encode bs = map b64_char (sextets bs) @ padding (length bs)"

subsection \<open>The copying loop of the two consumers\<close>

text \<open>
  \<open>base64ToArrayBuffer\<close> (background script) and \<open>decodeAudioData\<close> (popup) share the
  loop
  \<^verbatim>\<open>for (let i = 0; i < len; i++) { bytes[i] = binaryString.charCodeAt(i); }\<close>
  over \<open>bytes = new Uint8Array(len)\<close>. \<open>charCodeAt\<close> out of range is \<open>NaN\<close>, stored as 0;
  a store into a \<open>Uint8Array\<close> keeps the low eight bits, and a store out of range is
  ignored (as \<open>list_update\<close> does).
\<close>

definition charCodeAt :: "jsstring \<Rightarrow> nat \<Rightarrow> jschar option" where
  "charCodeAt s i = (if i < length s then Some (s ! i) else None)"

fun toUint8 :: "jschar option \<Rightarrow> byte" where
  "toUint8 None = 0"
| "toUint8 (Some c) = ucast c"

function copyLoop :: "jsstring \<Rightarrow> nat \<Rightarrow> nat \<Rightarrow> byte list \<Rightarrow> byte list" where
  "copyLoop binaryString len i bytes =
     (if i < len
      then copyLoop binaryString len (i + 1) (bytes[i := toUint8 (charCodeAt binaryString i)])
      else bytes)"
  by pat_completeness auto
termination
  by (relation "measure (\<lambda>(s, len, i, bytes). len - i)") auto

declare copyLoop.simps [simp del]

definition binaryToBytes :: "jsstring \<Rightarrow> byte list" where
  "binaryToBytes binaryString =
     (let len = length binaryString;
          bytes = replicate len 0
      in copyLoop binaryString len 0 bytes)"

section \<open>The platform and the server's interface\<close>

text \<open>
  The request body that the extension posts to \<open>SERVER_URL\<close>, before
  \<open>JSON.stringify\<close>: an object with the key \<open>summarizer_choice\<close> and, when set, the
  keys \<open>url\<close> and \<open>rss_url\<close>.
\<close>

record request =
  summarizer_choice :: jsstring
  url :: "jsstring option"
  rss_url :: "jsstring option"

text \<open>
  The parsed body of a response: the fields the consumers read, each absent
  (\<open>undefined\<close> or \<open>null\<close>) or a string. A \<open>Response\<close> carries \<open>ok\<close>, \<open>status\<close>,
  \<open>statusText\<close> and the outcome of \<open>response.json()\<close>: the parsed body, or the
  exception when the body is not JSON or a field of it cannot be read.
\<close>

record data =
  error :: "jsstring option"
  summary_text :: "jsstring option"
  audio_base64 :: "jsstring option"

record response =
  ok :: bool
  status :: nat
  statusText :: jsstring
  json :: "exn + data"

record tab =
  tab_id :: nat
  tab_url :: "jsstring option"

datatype audiobuf = AudioBuffer "int list"

datatype ctx_state = Running | Suspended | Closed

text \<open>
  What the browser and the network answer, as parameters of the model: the result of
  \<open>chrome.tabs.query\<close>, of \<open>fetch\<close> for a request body, of
  \<open>audioContext.decodeAudioData\<close> for a buffer, of creating an \<open>AudioContext\<close>, the
  exception, if any, of creating, connecting and starting a buffer source, and the
  text that this browser gives as the message of the \<open>DOMException\<close> of \<open>atob\<close>.
\<close>

record world =
  tabs_query :: "exn + tab list"
  fetch :: "request \<Rightarrow> exn + response"
  decodeAudio :: "byte list \<Rightarrow> exn + audiobuf"
  newAudioContext :: "exn + ctx_state"
  startSource :: "audiobuf \<Rightarrow> exn option"
  invalidCharacterMessage :: jsstring

text \<open>\<open>error.message\<close>: the message of an exception on the given platform.\<close>

fun exn_message :: "world \<Rightarrow> exn \<Rightarrow> jsstring" where
  "exn_message w (Error m) = m"
| "exn_message w InvalidCharacterError = invalidCharacterMessage w"
| "exn_message w (Rejected m) = m"

text \<open>JavaScript truthiness of an optional string, and \<open>a || b\<close> on it.\<close>

fun truthy :: "jsstring option \<Rightarrow> bool" where
  "truthy None = False"
| "truthy (Some s) = (s \<noteq> [])"

fun orElse :: "jsstring option \<Rightarrow> jsstring \<Rightarrow> jsstring" where
  "orElse None b = b"
| "orElse (Some a) b = (if a \<noteq> [] then a else b)"

text \<open>
  \<^verbatim>\<open>if (data.error) { throw new Error(data.error); }\<close>: the message thrown, if any.
\<close>

definition data_error :: "data \<Rightarrow> jsstring option" where
  "data_error d = (case error d of None \<Rightarrow> None | Some m \<Rightarrow> if m \<noteq> [] then Some m else None)"

text \<open>A number in a template literal: the decimal digits of a status code.\<close>

function showNat :: "nat \<Rightarrow> jsstring" where
  "showNat n = (if n < 10 then [of_nat (48 + n)] else showNat (n div 10) @ [of_nat (48 + n mod 10)])"
  by pat_completeness auto
termination
  by (relation "measure id") auto

declare showNat.simps [simp del]

text \<open>
  The URL check of the background script and of the popup:
  \<^verbatim>\<open>!tab.url || (!tab.url.startsWith('http:') && !tab.url.startsWith('https:'))\<close>
\<close>

definition invalid_url :: "jsstring option \<Rightarrow> bool" where
  "invalid_url u =
     (\<not> truthy u \<or>
      (case u of
         None \<Rightarrow> True
       | Some s \<Rightarrow> \<not> startsWith s (js ''http:'') \<and> \<not> startsWith s (js ''https:'')))"

section \<open>The background script\<close>

record notification =
  ntype :: jsstring
  iconUrl :: jsstring
  title :: jsstring
  message :: jsstring

record background =
  notifications :: "notification list"
  badgeText :: jsstring
  badgeBackgroundColor :: jsstring
  bg_fetches :: "request list"
  audioContext :: "ctx_state option"
  currentAudioSource :: "audiobuf option"

text \<open>\<open>chrome.notifications.create\<close> with the icon \<open>icons/icon48.png\<close>.\<close>

definition notifications_create :: "jsstring \<Rightarrow> jsstring \<Rightarrow> background \<Rightarrow> background" where
  "notifications_create t m st =
     st\<lparr>notifications := notifications st @
          [\<lparr>ntype = js ''basic'', iconUrl = js ''icons/icon48.png'', title = t, message = m\<rparr>]\<rparr>"

text \<open>The texts of the notifications, as UTF-16 code units.\<close>

definition title_playback_error :: jsstring where
  "title_playback_error = [0x64AD, 0x653E, 0x932F, 0x8AA4]"

definition message_bad_audio_data :: jsstring where
  "message_bad_audio_data =
     [0x5F9E, 0x4F3A, 0x670D, 0x5668, 0x6536, 0x5230, 0x7684, 0x97F3, 0x8A0A, 0x6578,
      0x64DA, 0x683C, 0x5F0F, 0x932F, 0x8AA4, 0x3002]"

definition message_cannot_play :: jsstring where
  "message_cannot_play = [0x7121, 0x6CD5, 0x64AD, 0x653E, 0x97F3, 0x8A0A, 0xFF1A, 0x20]"

definition title_cannot_summarize :: jsstring where
  "title_cannot_summarize = [0x7121, 0x6CD5, 0x6458, 0x8981]"

definition message_invalid_url :: jsstring where
  "message_invalid_url =
     [0x6B64, 0x64F4, 0x5145, 0x529F, 0x80FD, 0x7121, 0x6CD5, 0x6458, 0x8981, 0x76EE,
      0x524D, 0x9801, 0x9762, 0x20, 0x28, 0x55, 0x52, 0x4C, 0x20, 0x7121, 0x6548, 0x29,
      0x3002]"

definition text_server_error :: jsstring where
  "text_server_error = [0x4F3A, 0x670D, 0x5668, 0x932F, 0x8AA4, 0x20]"

definition title_summary_result :: jsstring where
  "title_summary_result = [0x6458, 0x8981, 0x7D50, 0x679C]"

definition message_no_audio :: jsstring where
  "message_no_audio =
     [0x4F3A, 0x670D, 0x5668, 0x5DF2, 0x8655, 0x7406, 0xFF0C, 0x4F46, 0x672A, 0x6536,
      0x5230, 0x6709, 0x6548, 0x7684, 0x97F3, 0x8A0A, 0x6458, 0x8981, 0x3002]"

definition title_processing_error :: jsstring where
  "title_processing_error = [0x8655, 0x7406, 0x932F, 0x8AA4]"

definition message_error_occurred :: jsstring where
  "message_error_occurred = [0x767C, 0x751F, 0x932F, 0x8AA4, 0xFF1A, 0x20]"

text \<open>
  \<open>base64ToArrayBuffer\<close>: the \<open>try\<close> block is \<open>atob\<close> and the copying loop; the \<open>catch\<close>
  block creates a notification and throws a new \<open>Error\<close>.
\<close>

definition base64ToArrayBuffer :: "jsstring \<Rightarrow> background \<Rightarrow> (exn + byte list) \<times> background" where
  "base64ToArrayBuffer base64 st =
     (case atob base64 of
        Inr binaryString \<Rightarrow> (Inr (binaryToBytes binaryString), st)
      | Inl e \<Rightarrow>
          (Inl (Error (js ''Invalid Base64 audio data received.'')),
           notifications_create title_playback_error message_bad_audio_data st))"

text \<open>
  \<open>playAudio\<close> of the background script. Creating the \<open>AudioContext\<close> stands outside
  its \<open>try\<close> block, so an exception there reaches the caller; a failure to decode or
  to start the source is caught and reported in a notification.
\<close>

definition ensureContext :: "world \<Rightarrow> background \<Rightarrow> exn option \<times> background" where
  "ensureContext w st =
     (if audioContext st = None \<or> audioContext st = Some Suspended then
        (case newAudioContext w of
           Inl e \<Rightarrow> (Some e, st)
         | Inr c \<Rightarrow> (None, st\<lparr>audioContext := Some (if c = Suspended then Running else c)\<rparr>))
      else (None, st))"

definition bg_playAudio :: "world \<Rightarrow> byte list \<Rightarrow> background \<Rightarrow> exn option \<times> background" where
  "bg_playAudio w audioBuffer st =
     (case ensureContext w st of
        (Some e, st1) \<Rightarrow> (Some e, st1)
      | (None, st1) \<Rightarrow>
          (let st2 = st1\<lparr>currentAudioSource := None\<rparr> in
           case decodeAudio w audioBuffer of
             Inl e \<Rightarrow>
               (None, notifications_create title_playback_error
                        (message_cannot_play @ exn_message w e) st2)
           | Inr decodedData \<Rightarrow>
               (case startSource w decodedData of
                  Some e \<Rightarrow>
                    (None, notifications_create title_playback_error
                             (message_cannot_play @ exn_message w e) st2)
                | None \<Rightarrow> (None, st2\<lparr>currentAudioSource := Some decodedData\<rparr>))))"

text \<open>
  The \<open>chrome.action.onClicked\<close> listener: the URL check, then the \<open>try\<close> block
  (\<open>onClicked_try\<close>, which returns the exception thrown, if any), the \<open>catch\<close> block and
  the \<open>finally\<close> block.
\<close>

definition onClicked_try :: "world \<Rightarrow> tab \<Rightarrow> background \<Rightarrow> exn option \<times> background" where
  "onClicked_try w t st =
     (let body = \<lparr>summarizer_choice = js ''gemini'', url = tab_url t, rss_url = None\<rparr>;
          st1 = st\<lparr>bg_fetches := bg_fetches st @ [body]\<rparr>
      in case fetch w body of
           Inl e \<Rightarrow> (Some e, st1)
         | Inr response \<Rightarrow>
             if \<not> ok response then
               (let errorMsg = text_server_error @ showNat (status response) in
                case json response of
                  Inl e \<Rightarrow> (Some (Error (errorMsg @ js '': '' @ statusText response)), st1)
                | Inr errorData \<Rightarrow> (Some (Error (orElse (error errorData) errorMsg)), st1))
             else
               (case json response of
                  Inl e \<Rightarrow> (Some e, st1)
                | Inr d \<Rightarrow>
                    (case data_error d of
                       Some m \<Rightarrow> (Some (Error m), st1)
                     | None \<Rightarrow>
                         (case audio_base64 d of
                            None \<Rightarrow>
                              (None, notifications_create title_summary_result message_no_audio st1)
                          | Some b64 \<Rightarrow>
                              if 0 < length b64 then
                                (case base64ToArrayBuffer b64 st1 of
                                   (Inl e, st2) \<Rightarrow> (Some e, st2)
                                 | (Inr audioBuffer, st2) \<Rightarrow> bg_playAudio w audioBuffer st2)
                              else
                                (None, notifications_create title_summary_result message_no_audio st1)))))"

definition onClicked :: "world \<Rightarrow> tab \<Rightarrow> background \<Rightarrow> background" where
  "onClicked w t st =
     (if invalid_url (tab_url t) then
        notifications_create title_cannot_summarize message_invalid_url st
      else
        (let st1 = st\<lparr>badgeText := js ''...'', badgeBackgroundColor := js ''#FFA500''\<rparr> in
         case onClicked_try w t st1 of
           (None, st2) \<Rightarrow> st2\<lparr>badgeText := []\<rparr>
         | (Some e, st2) \<Rightarrow>
             (notifications_create title_processing_error
                (message_error_occurred @ exn_message w e) st2)\<lparr>badgeText := []\<rparr>))"

text \<open>
  The background script as loaded: \<open>audioContext\<close> and \<open>currentAudioSource\<close> are
  \<open>null\<close>, nothing has been sent or shown.
\<close>

definition background_loaded :: background where
  "background_loaded =
     \<lparr>notifications = [], badgeText = [], badgeBackgroundColor = [], bg_fetches = [],
      audioContext = None, currentAudioSource = None\<rparr>"

section \<open>The popup\<close>

text \<open>
  The state of the popup: the text of \<open>statusDiv\<close> and of \<open>summaryContainer\<close>, the
  \<open>style.display\<close> of the summary container and of the controls, the \<open>disabled\<close> flags
  of the two buttons, the value of \<open>sourceSelect\<close>, the variable \<open>audioBuffer\<close>, and
  two logs of effects: the request bodies passed to \<open>fetch\<close> and the buffers whose
  playback was started.
\<close>

record popup =
  statusDiv :: jsstring
  summaryContainer :: jsstring
  summaryContainer_display :: jsstring
  controlsDiv_display :: jsstring
  replayButton_disabled :: bool
  summarizeButton_disabled :: bool
  sourceSelect :: jsstring
  audioBuffer :: "audiobuf option"
  fetches :: "request list"
  started :: "audiobuf list"

definition updateStatus :: "jsstring \<Rightarrow> popup \<Rightarrow> popup" where
  "updateStatus m st = st\<lparr>statusDiv := m\<rparr>"

definition showSummaryArea :: "bool \<Rightarrow> popup \<Rightarrow> popup" where
  "showSummaryArea sh st =
     st\<lparr>summaryContainer_display := (if sh then js ''block'' else js ''none''),
        controlsDiv_display := (if sh then js ''block'' else js ''none'')\<rparr>"

definition resetUI :: "popup \<Rightarrow> popup" where
  "resetUI st =
     (showSummaryArea False
        ((updateStatus (js ''Select source and click Summarize.'') st)
           \<lparr>summaryContainer := []\<rparr>))
       \<lparr>replayButton_disabled := True, audioBuffer := None\<rparr>"

text \<open>
  \<open>decodeAudioData\<close>: \<open>atob\<close>, the copying loop and the platform's decoder in a \<open>try\<close>
  block; the \<open>catch\<close> block sets the status and rethrows.
\<close>

definition decodeAudioData :: "world \<Rightarrow> jsstring \<Rightarrow> popup \<Rightarrow> (exn + audiobuf) \<times> popup" where
  "decodeAudioData w base64String st =
     (case atob base64String of
        Inl e \<Rightarrow> (Inl e, updateStatus (js ''Error: Could not decode audio.'') st)
      | Inr binaryString \<Rightarrow>
          (case decodeAudio w (binaryToBytes binaryString) of
             Inl e \<Rightarrow> (Inl e, updateStatus (js ''Error: Could not decode audio.'') st)
           | Inr buffer \<Rightarrow> (Inr buffer, st)))"

text \<open>
  \<open>playAudio\<close>: without a buffer it only sets the status; an exception of the source is
  caught inside. Resuming a suspended context changes nothing that is modelled here.
\<close>

definition playAudio :: "world \<Rightarrow> audiobuf option \<Rightarrow> popup \<Rightarrow> popup" where
  "playAudio w buffer st =
     (case buffer of
        None \<Rightarrow> updateStatus (js ''Error: No audio available.'') st
      | Some b \<Rightarrow>
          (case startSource w b of
             Some e \<Rightarrow> updateStatus (js ''Error: Could not play audio.'') st
           | None \<Rightarrow> updateStatus (js ''Playing summary...'') (st\<lparr>started := started st @ [b]\<rparr>)))"

text \<open>
  \<open>fetchSummaryAndPlay\<close>. \<open>fetchSummaryAndPlay_try\<close> is the function up to the end of
  its \<open>try\<close> block and returns the exception thrown there, if any, with the state
  reached; the \<open>catch\<close> block shows the message, resets the interface and shows the
  message again; the \<open>finally\<close> block enables the button.
\<close>

definition fetchSummaryAndPlay_try :: "world \<Rightarrow> request \<Rightarrow> popup \<Rightarrow> exn option \<times> popup" where
  "fetchSummaryAndPlay_try w requestBody st =
     (let st0 = (updateStatus (js ''Requesting summary from server...'') st)
                  \<lparr>summarizeButton_disabled := True\<rparr>;
          st1 = st0\<lparr>fetches := fetches st0 @ [requestBody]\<rparr> in
      case fetch w requestBody of
        Inl e \<Rightarrow> (Some e, st1)
      | Inr response \<Rightarrow>
          if \<not> ok response then
            (let errorMsg = js ''Server error ('' @ showNat (status response) @ js '')'' in
             case json response of
               Inl e \<Rightarrow> (Some (Error errorMsg), st1)
             | Inr errData \<Rightarrow> (Some (Error (orElse (error errData) errorMsg)), st1))
          else
            (case json response of
               Inl e \<Rightarrow> (Some e, st1)
             | Inr d \<Rightarrow>
                 (case data_error d of
                    Some m \<Rightarrow> (Some (Error m), st1)
                  | None \<Rightarrow>
                      if \<not> truthy (summary_text d) \<or> \<not> truthy (audio_base64 d) then
                        (Some (Error (js ''Server response missing summary or audio data.'')), st1)
                      else
                        (let st2 = st1\<lparr>summaryContainer := orElse (summary_text d) []\<rparr>;
                             st3 = showSummaryArea True st2;
                             st4 = updateStatus (js ''Decoding audio...'') st3
                         in case decodeAudioData w (orElse (audio_base64 d) []) st4 of
                              (Inl e, st5) \<Rightarrow> (Some e, st5)
                            | (Inr buffer, st5) \<Rightarrow>
                                (None,
                                 playAudio w (Some buffer)
                                   (st5\<lparr>audioBuffer := Some buffer,
                                        replayButton_disabled := False\<rparr>))))))"

definition fetchSummaryAndPlay :: "world \<Rightarrow> request \<Rightarrow> popup \<Rightarrow> popup" where
  "fetchSummaryAndPlay w requestBody st =
     (case fetchSummaryAndPlay_try w requestBody st of
        (None, st1) \<Rightarrow> st1\<lparr>summarizeButton_disabled := False\<rparr>
      | (Some e, st1) \<Rightarrow>
          (updateStatus (js ''Error: '' @ exn_message w e)
             (resetUI (updateStatus (js ''Error: '' @ exn_message w e) st1)))
            \<lparr>summarizeButton_disabled := False\<rparr>)"

text \<open>
  The click listener of \<open>summarizeButton\<close>. With the source \<open>current_tab\<close> the URL of
  the active tab is checked before the request is sent; any other value of the select
  is taken as the URL of an RSS feed and sent as it is.
\<close>

definition summarizeButton_click :: "world \<Rightarrow> popup \<Rightarrow> popup" where
  "summarizeButton_click w st =
     (let selectedValue = sourceSelect st;
          requestBody = \<lparr>summarizer_choice = js ''gemini'', url = None, rss_url = None\<rparr>;
          st1 = resetUI st
      in if selectedValue = js ''current_tab'' then
           (let st2 = updateStatus (js ''Getting current tab URL...'') st1 in
            case tabs_query w of
              Inl e \<Rightarrow> updateStatus (js ''Error: '' @ exn_message w e) st2
            | Inr tabs \<Rightarrow>
                (case tabs of
                   [] \<Rightarrow> updateStatus (js ''Error: Invalid URL for current tab.'') st2
                 | currentTab # _ \<Rightarrow>
                     if invalid_url (tab_url currentTab) then
                       updateStatus (js ''Error: Invalid URL for current tab.'') st2
                     else fetchSummaryAndPlay w (requestBody\<lparr>url := tab_url currentTab\<rparr>) st2))
         else fetchSummaryAndPlay w (requestBody\<lparr>rss_url := Some selectedValue\<rparr>) st1)"

text \<open>The click listener of \<open>replayButton\<close>.\<close>

definition replayButton_click :: "world \<Rightarrow> popup \<Rightarrow> popup" where
  "replayButton_click w st = playAudio w (audioBuffer st) st"

subsection \<open>The popup that summarizes when it opens\<close>

text \<open>
  The first version of the popup has no select: the callback of \<open>chrome.tabs.query\<close>
  sends the URL of the active tab, whatever its scheme, and handles the answer in a
  promise chain that ends in \<open>catch\<close>. \<open>popup_opened_chain\<close> is the callback from the
  status update to the last \<open>then\<close> handler and returns the exception that reaches
  \<open>catch\<close>, if any. In the branch for a response that is not \<open>ok\<close> the inner \<open>catch\<close>
  also catches the \<open>Error\<close> thrown with the server's message, so the message is always
  the one with the status code.
\<close>

definition popup_opened_chain :: "world \<Rightarrow> jsstring \<Rightarrow> popup \<Rightarrow> exn option \<times> popup" where
  "popup_opened_chain w pageUrl st =
     (let st0 = updateStatus (js ''Fetching summary for: '' @ take 50 pageUrl @ js ''...'') st;
          body = \<lparr>summarizer_choice = js ''gemini'', url = Some pageUrl, rss_url = None\<rparr>;
          st1 = st0\<lparr>fetches := fetches st0 @ [body]\<rparr> in
      case fetch w body of
        Inl e \<Rightarrow> (Some e, st1)
      | Inr response \<Rightarrow>
          if \<not> ok response then
            (Some (Error (js ''HTTP error! status: '' @ showNat (status response))), st1)
          else
            (case json response of
               Inl e \<Rightarrow> (Some e, st1)
             | Inr d \<Rightarrow>
                 (case data_error d of
                    Some m \<Rightarrow> (Some (Error m), st1)
                  | None \<Rightarrow>
                      if \<not> truthy (summary_text d) \<or> \<not> truthy (audio_base64 d) then
                        (Some (Error (js ''Server response missing summary or audio data.'')), st1)
                      else
                        (let st2 = st1\<lparr>summaryContainer := orElse (summary_text d) []\<rparr>;
                             st3 = updateStatus (js ''Decoding audio...'') st2
                         in case decodeAudioData w (orElse (audio_base64 d) []) st3 of
                              (Inl e, st4) \<Rightarrow> (Some e, st4)
                            | (Inr decodedBuffer, st4) \<Rightarrow>
                                (None,
                                 playAudio w (Some decodedBuffer)
                                   (updateStatus (js ''Playing summary...'')
                                      (st4\<lparr>audioBuffer := Some decodedBuffer,
                                           replayButton_disabled := False\<rparr>)))))))"

definition popup_opened :: "world \<Rightarrow> popup \<Rightarrow> popup" where
  "popup_opened w st =
     (case tabs_query w of
        Inl e \<Rightarrow> st
      | Inr tabs \<Rightarrow>
          (case tabs of
             [] \<Rightarrow> updateStatus (js ''Error: Could not get current tab URL.'') st
           | currentTab # _ \<Rightarrow>
               (case tab_url currentTab of
                  None \<Rightarrow> updateStatus (js ''Error: Could not get current tab URL.'') st
                | Some pageUrl \<Rightarrow>
                    if pageUrl = [] then
                      updateStatus (js ''Error: Could not get current tab URL.'') st
                    else
                      (case popup_opened_chain w pageUrl st of
                         (None, st2) \<Rightarrow> st2
                       | (Some e, st2) \<Rightarrow>
                           (updateStatus (js ''Error: '' @ exn_message w e)
                              (st2\<lparr>replayButton_disabled := True\<rparr>))
                             \<lparr>summaryContainer := [], replayButton_disabled := True\<rparr>))))"

section \<open>The options page\<close>

text \<open>
  The state of the options page: the raw value of the textarea \<open>rss-feeds\<close>, the text
  of the status line, and the entry \<open>rssFeedList\<close> of \<open>chrome.storage.sync\<close> (\<open>None\<close>
  while nothing is stored). Assigning to \<open>value\<close> sets the raw value of the textarea;
  \<open>chrome.storage.sync.set\<close> stores what it is given.
\<close>

record options_page =
  rssFeedsTextArea :: jsstring
  options_status :: jsstring
  rssFeedList :: "jsstring list option"

text \<open>
  Reading \<open>value\<close> of a textarea gives its raw value with the newlines normalised:
  every pair CR LF and every other CR becomes LF.
\<close>

fun textarea_value :: "jsstring \<Rightarrow> jsstring" where
  "textarea_value (c # d # ds) =
     (if c = 13 \<and> d = 10 then 10 # textarea_value ds
      else if c = 13 then 10 # textarea_value (d # ds)
      else c # textarea_value (d # ds))"
| "textarea_value [c] = (if c = 13 then [10] else [c])"
| "textarea_value [] = []"

text \<open>\<open>feedsText.split('\n')\<close>: the pieces between line feeds, at least one piece.\<close>

fun split_lf :: "jsstring \<Rightarrow> jsstring list" where
  "split_lf [] = [[]]"
| "split_lf (c # cs) =
     (if c = 10 then [] # split_lf cs
      else (case split_lf cs of
              [] \<Rightarrow> [[c]]
            | piece # pieces \<Rightarrow> (c # piece) # pieces))"

text \<open>
  \<open>String.prototype.trim\<close> removes white space and line terminators from both ends:
  TAB, LF, VT, FF, CR, SPACE, NBSP, the space separators of Unicode, LS, PS and the
  byte order mark.
\<close>

definition js_whitespace :: "jschar \<Rightarrow> bool" where
  "js_whitespace c =
     (c = 0x09 \<or> c = 0x0A \<or> c = 0x0B \<or> c = 0x0C \<or> c = 0x0D \<or> c = 0x20 \<or> c = 0xA0
      \<or> c = 0x1680 \<or> (0x2000 \<le> c \<and> c \<le> 0x200A) \<or> c = 0x2028 \<or> c = 0x2029
      \<or> c = 0x202F \<or> c = 0x205F \<or> c = 0x3000 \<or> c = 0xFEFF)"

definition trim :: "jsstring \<Rightarrow> jsstring" where
  "trim s = rev (dropWhile js_whitespace (rev (dropWhile js_whitespace s)))"

text \<open>\<open>array.join('\n')\<close> on an array of strings.\<close>

fun join_lf :: "jsstring list \<Rightarrow> jsstring" where
  "join_lf [] = []"
| "join_lf [x] = x"
| "join_lf (x # y # ys) = x @ [10] @ join_lf (y # ys)"

definition saveOptions :: "options_page \<Rightarrow> options_page" where
  "saveOptions st =
     (let feedsText = textarea_value (rssFeedsTextArea st);
          feedsArray = filter (\<lambda>feed. 0 < length feed) (map trim (split_lf feedsText))
      in st\<lparr>rssFeedList := Some feedsArray, options_status := js ''Options saved.''\<rparr>)"

text \<open>
  \<open>restoreOptions\<close> reads \<open>rssFeedList\<close> with the default \<open>[]\<close>; \<open>lastError\<close> tells
  whether \<open>chrome.runtime.lastError\<close> is set in the callback.
\<close>

definition restoreOptions :: "bool \<Rightarrow> options_page \<Rightarrow> options_page" where
  "restoreOptions lastError st =
     (if lastError then st\<lparr>options_status := js ''Error loading options.''\<rparr>
      else st\<lparr>rssFeedsTextArea :=
                join_lf (case rssFeedList st of None \<Rightarrow> [] | Some feeds \<Rightarrow> feeds)\<rparr>)"

section \<open>The summarization server, from the specification\<close>

text \<open>
  Modelled from the spec: the server (content extraction, prompt construction, the
  provider gateway, the speech client and the orchestrator that runs them) is not among
  the source files. The definitions of this section follow sections 3, 4, 6 and 7 of
  the specification.
\<close>

datatype error_kind =
  InvalidInput | ExtractionFailure | ConfigurationError | ProviderFailure
  | SynthesisFailure | InternalFailure

datatype failure = Failure error_kind jsstring

datatype stage = Extracting | Prompting | Summarizing | Synthesizing | Encoding

datatype source = PageUrl jsstring | FeedItem jsstring

record SummarizationRequest =
  req_source :: source
  provider_id :: jsstring

record ExtractedDocument =
  raw_text :: jsstring
  source_url :: jsstring

record PromptPayload =
  system_prompt :: jsstring
  user_prompt :: jsstring

text \<open>
  Modelled from the spec: the template configuration, read once at start: the system
  instruction, the user-prompt template and the fixed placeholder at which the extracted
  text is put.
\<close>

record template_config =
  system_instruction :: jsstring
  user_prompt_template :: jsstring
  placeholder :: jsstring

text \<open>\<open>str_includes s m\<close>: the string \<open>m\<close> occurs in \<open>s\<close>.\<close>

fun str_includes :: "jsstring \<Rightarrow> jsstring \<Rightarrow> bool" where
  "str_includes [] m = (m = [])"
| "str_includes (c # cs) m = (startsWith (c # cs) m \<or> str_includes cs m)"

text \<open>The parts of a template before and after the first occurrence of the placeholder.\<close>

fun split_at_placeholder :: "jsstring \<Rightarrow> jsstring \<Rightarrow> (jsstring \<times> jsstring) option" where
  "split_at_placeholder m [] = (if m = [] then Some ([], []) else None)"
| "split_at_placeholder m (c # cs) =
     (if startsWith (c # cs) m then Some ([], drop (length m) (c # cs))
      else (case split_at_placeholder m cs of
              None \<Rightarrow> None
            | Some (before, after) \<Rightarrow> Some (c # before, after)))"

text \<open>
  Modelled from the spec (4.2): \<open>build(document, template_config)\<close> is a pure function;
  it fails with a configuration error when the template lacks the placeholder, and
  otherwise puts the extracted text at the placeholder.
\<close>

definition build :: "ExtractedDocument \<Rightarrow> template_config \<Rightarrow> failure + PromptPayload" where
  "build document cfg =
     (case split_at_placeholder (placeholder cfg) (user_prompt_template cfg) of
        None \<Rightarrow>
          Inl (Failure ConfigurationError (js ''prompt template lacks the text placeholder''))
      | Some (before, after) \<Rightarrow>
          Inr \<lparr>system_prompt = system_instruction cfg,
               user_prompt = before @ raw_text document @ after\<rparr>)"

text \<open>
  Modelled from the spec: the collaborators of the orchestrator. The extraction library
  and the speech service are fallible functions; the gateway holds one summarizer for
  each supported provider identifier.
\<close>

record services =
  extract_text :: "jsstring \<Rightarrow> failure + jsstring"
  providers :: "(jsstring \<times> (PromptPayload \<Rightarrow> failure + jsstring)) list"
  synthesize_speech :: "jsstring \<Rightarrow> failure + byte list"

fun source_ref :: "source \<Rightarrow> jsstring" where
  "source_ref (PageUrl u) = u"
| "source_ref (FeedItem u) = u"

definition http_scheme :: "jsstring \<Rightarrow> bool" where
  "http_scheme u = (startsWith u (js ''http:'') \<or> startsWith u (js ''https:''))"

text \<open>
  Modelled from the spec (4.1): \<open>extract(url)\<close> rejects a scheme other than http and
  https before any network call; an empty extraction is a failure.
\<close>

definition extract_document :: "services \<Rightarrow> jsstring \<Rightarrow> failure + ExtractedDocument" where
  "extract_document svc u =
     (if \<not> http_scheme u then Inl (Failure InvalidInput (js ''unsupported URL scheme''))
      else
        (case extract_text svc u of
           Inl f \<Rightarrow> Inl f
         | Inr t \<Rightarrow>
             if t = [] then Inl (Failure ExtractionFailure (js ''no extractable content''))
             else Inr \<lparr>raw_text = t, source_url = u\<rparr>))"

text \<open>
  Modelled from the spec (4.3): \<open>summarize(payload, provider_id)\<close> dispatches on the
  provider identifier; an identifier outside the supported set is an invalid input; a
  summary is never empty on success.
\<close>

definition summarize :: "services \<Rightarrow> PromptPayload \<Rightarrow> jsstring \<Rightarrow> failure + jsstring" where
  "summarize svc payload pid =
     (case map_of (providers svc) pid of
        None \<Rightarrow> Inl (Failure InvalidInput (js ''unsupported provider''))
      | Some provider \<Rightarrow>
          (case provider payload of
             Inl f \<Rightarrow> Inl f
           | Inr summary \<Rightarrow>
               if summary = [] then Inl (Failure ProviderFailure (js ''empty summary''))
               else Inr summary))"

text \<open>
  Modelled from the spec (4.4): \<open>synthesize(text, reference_sample)\<close> returns the audio
  bytes of the service, checked only for a length above zero.
\<close>

definition synthesize :: "services \<Rightarrow> jsstring \<Rightarrow> failure + byte list" where
  "synthesize svc t =
     (case synthesize_speech svc t of
        Inl f \<Rightarrow> Inl f
      | Inr audio \<Rightarrow>
          if audio = [] then Inl (Failure SynthesisFailure (js ''empty audio''))
          else Inr audio)"

text \<open>
  Modelled from the spec (4.5): \<open>run\<close> invokes extractor, prompt builder, gateway and
  synthesizer in this order and stops at the first failure. Its first component lists
  the stages entered; its second is the one result: a failure, or the summary with the
  encoded audio.
\<close>

definition run ::
  "services \<Rightarrow> template_config \<Rightarrow> SummarizationRequest \<Rightarrow>
   stage list \<times> (failure + jsstring \<times> jsstring)" where
  "run svc cfg req =
     (case extract_document svc (source_ref (req_source req)) of
        Inl f \<Rightarrow> ([Extracting], Inl f)
      | Inr document \<Rightarrow>
          (case build document cfg of
             Inl f \<Rightarrow> ([Extracting, Prompting], Inl f)
           | Inr payload \<Rightarrow>
               (case summarize svc payload (provider_id req) of
                  Inl f \<Rightarrow> ([Extracting, Prompting, Summarizing], Inl f)
                | Inr summary \<Rightarrow>
                    (case synthesize svc summary of
                       Inl f \<Rightarrow> ([Extracting, Prompting, Summarizing, Synthesizing], Inl f)
                     | Inr audio \<Rightarrow>
                         ([Extracting, Prompting, Summarizing, Synthesizing, Encoding],
                          Inr (summary, b64encode audio))))))"

text \<open>
  Modelled from the spec (6): the outbound payload is \<open>{ error }\<close> on failure and
  \<open>{ summary_text, audio_base64 }\<close> on success.
\<close>

fun respond :: "failure + jsstring \<times> jsstring \<Rightarrow> data" where
  "respond (Inl (Failure k m)) = \<lparr>error = Some m, summary_text = None, audio_base64 = None\<rparr>"
| "respond (Inr (summary, audio)) =
     \<lparr>error = None, summary_text = Some summary, audio_base64 = Some audio\<rparr>"

section \<open>Concrete platforms and states\<close>

text \<open>
  The popup as loaded: nothing shown, nothing sent, \<open>audioBuffer\<close> is \<open>null\<close>, the
  select stands at the given value.
\<close>

definition popup_loaded :: "jsstring \<Rightarrow> popup" where
  "popup_loaded selected =
     \<lparr>statusDiv = [], summaryContainer = [], summaryContainer_display = [],
      controlsDiv_display = [], replayButton_disabled = True, summarizeButton_disabled = False,
      sourceSelect = selected, audioBuffer = None, fetches = [], started = []\<rparr>"

text \<open>
  A platform on which everything works: the active tab is the given one, the server
  answers every request with the given response, every byte sequence decodes (to one
  sample for each byte) and every source starts.
\<close>

definition answering :: "tab \<Rightarrow> response \<Rightarrow> world" where
  "answering t r =
     \<lparr>tabs_query = Inr [t], fetch = (\<lambda>body. Inr r),
      decodeAudio = (\<lambda>bytes. Inr (AudioBuffer (map sint bytes))),
      newAudioContext = Inr Running, startSource = (\<lambda>buffer. None),
      invalidCharacterMessage = js ''The string to be decoded is not correctly encoded.''\<rparr>"

text \<open>The same platform with a server that cannot be reached.\<close>

definition unreachable :: "tab \<Rightarrow> world" where
  "unreachable t =
     \<lparr>tabs_query = Inr [t], fetch = (\<lambda>body. Inl (Rejected (js ''Failed to fetch''))),
      decodeAudio = (\<lambda>bytes. Inr (AudioBuffer (map sint bytes))),
      newAudioContext = Inr Running, startSource = (\<lambda>buffer. None),
      invalidCharacterMessage = js ''The string to be decoded is not correctly encoded.''\<rparr>"

text \<open>
  A server whose collaborators all answer: the page has text, the provider \<open>primary\<close>
  returns a summary, the speech service returns three bytes. \<open>silent_services\<close> is the
  same server with a speech service that cannot be reached.
\<close>

definition example_services :: services where
  "example_services =
     \<lparr>extract_text = (\<lambda>u. Inr (js ''Text of the article.'')),
      providers = [(js ''primary'', (\<lambda>payload. Inr (js ''A summary.'')))],
      synthesize_speech = (\<lambda>t. Inr [77, 97, 110])\<rparr>"

definition silent_services :: services where
  "silent_services =
     \<lparr>extract_text = (\<lambda>u. Inr (js ''Text of the article.'')),
      providers = [(js ''primary'', (\<lambda>payload. Inr (js ''A summary.'')))],
      synthesize_speech =
        (\<lambda>t. Inl (Failure SynthesisFailure (js ''speech service unreachable'')))\<rparr>"

definition example_config :: template_config where
  "example_config =
     \<lparr>system_instruction = js ''Be brief.'', user_prompt_template = js ''Summarize: {text}'',
      placeholder = js ''{text}''\<rparr>"

definition example_request :: SummarizationRequest where
  "example_request =
     \<lparr>req_source = PageUrl (js ''https://example.com/article''), provider_id = js ''primary''\<rparr>"

text \<open>
  Requests and a configuration that make a stage fail: a URL with the scheme \<open>ftp\<close>, a
  provider identifier outside the supported set, a template without the placeholder.
\<close>

definition ftp_request :: SummarizationRequest where
  "ftp_request =
     \<lparr>req_source = PageUrl (js ''ftp://example.com/file''), provider_id = js ''primary''\<rparr>"

definition unknown_provider_request :: SummarizationRequest where
  "unknown_provider_request =
     \<lparr>req_source = PageUrl (js ''https://example.com/article''),
      provider_id = js ''tertiary''\<rparr>"

definition bare_config :: template_config where
  "bare_config =
     \<lparr>system_instruction = js ''Be brief.'', user_prompt_template = js ''Summarize this.'',
      placeholder = js ''{text}''\<rparr>"

section \<open>Lemmas\<close>

lemma copyLoop_map:
  "length bytes = length s \<Longrightarrow> i \<le> length s \<Longrightarrow>
   copyLoop s (length s) i bytes = take i bytes @ map ucast (drop i s)"
proof (induction s "length s" i bytes rule: copyLoop.induct)
  case (1 s i bytes)
  show ?case
  proof (cases "i < length s")
    case True
    have step: "copyLoop s (length s) (i + 1) (bytes[i := toUint8 (charCodeAt s i)]) =
        take (i + 1) (bytes[i := toUint8 (charCodeAt s i)]) @ map ucast (drop (i + 1) s)"
      using "1.hyps" [OF True] "1.prems" True by simp
    have "take (i + 1) (bytes[i := ucast (s ! i)]) = take i bytes @ [ucast (s ! i)]"
      using True "1.prems" by (simp add: take_Suc_conv_app_nth)
    moreover have "drop i s = s ! i # drop (i + 1) s"
      using True by (simp add: Cons_nth_drop_Suc)
    ultimately show ?thesis
      using True step by (subst copyLoop.simps) (simp add: charCodeAt_def)
  next
    case False
    with "1.prems" show ?thesis by (subst copyLoop.simps) simp
  qed
qed

lemma binaryToBytes_map: "binaryToBytes s = map ucast s"
  using copyLoop_map [of "replicate (length s) 0" s 0] by (simp add: binaryToBytes_def)
subsection \<open>Base64: the decoder inverts the encoder\<close>

lemma unat_b64_char: "unat (b64_char v) = (if v < 26 then 65 + v
             else if v < 52 then 71 + v
             else if v < 62 then v - 4
             else if v = 62 then 43
             else 47)"
  by (simp add: b64_char_def unat_of_nat)

lemma b64_index_char: "v < 64 \<Longrightarrow> b64_index (b64_char v) = Some v"
  by (auto simp add: b64_index_def unat_b64_char Let_def)

lemma unat_byte: "unat (a :: byte) < 256"
  using unsigned_less [of a, where ?'a = nat] by simp

lemma b64_char_not_ws: "\<not> ascii_whitespace (b64_char v)"
proof -
  have "unat (b64_char v) \<ge> 43" unfolding unat_b64_char by auto
  then show ?thesis by (auto simp add: ascii_whitespace_def)
qed

lemma b64_char_not_pad: "b64_char v \<noteq> 61"
proof
  assume "b64_char v = 61"
  then have "unat (b64_char v) = 61" by simp
  then show False unfolding unat_b64_char by (auto split: if_splits)
qed

lemma sextets_bound: "list_all (\<lambda>v. v < 64) (sextets bs)"
proof (induction bs rule: sextets.induct)
  case (1 a b c rest)
  have "unat a < 256" "unat b < 256" "unat c < 256" by (rule unat_byte)+
  then have "(unat a * 65536 + unat b * 256 + unat c) div 262144 < 64" by simp
  with 1 show ?case by (simp add: Let_def)
next
  case (2 a b)
  have "unat a < 256" "unat b < 256" by (rule unat_byte)+
  then have "(unat a * 256 + unat b) * 4 div 4096 < 64" by simp
  then show ?case by (simp add: Let_def)
next
  case (3 a)
  have "unat a < 256" by (rule unat_byte)
  then have "unat a * 16 div 64 < 64" by simp
  then show ?case by (simp add: Let_def)
next
  case 4
  then show ?case by simp
qed

lemma sextet_step: "n div (k * 64) * 64 + n div k mod 64 = (n div k :: nat)"
  by (simp add: div_mult2_eq)

lemma reassemble4:
  "((n div 262144 * 64 + n div 4096 mod 64) * 64 + n div 64 mod 64) * 64 + n mod 64 = (n :: nat)"
  using sextet_step [of n 4096] sextet_step [of n 64] by simp

lemma reassemble3:
  "(n div 4096 * 64 + n div 64 mod 64) * 64 + n mod 64 = (n :: nat)"
  using sextet_step [of n 64] by simp

lemma split3:
  fixes a b c :: nat
  assumes "b < 256" "c < 256"
  defines "n \<equiv> a * 65536 + b * 256 + c"
  shows "n div 65536 = a" and "n div 256 mod 256 = b" and "n mod 256 = c"
proof -
  have e: "n = (a * 256 + b) * 256 + c" by (simp add: n_def)
  show "n div 65536 = a" using assms by simp
  have "n div 256 = a * 256 + b" unfolding e using assms by simp
  then show "n div 256 mod 256 = b" using assms by simp
  have "((a * 256 + b) * 256 + c) mod 256 = c mod 256" by (rule mod_mult_self3)
  then show "n mod 256 = c" unfolding e using assms(2) by (simp only: mod_less)
qed

lemma decode_group3:
  fixes a b c :: nat
  assumes "b < 256" "c < 256"
  defines "n \<equiv> a * 65536 + b * 256 + c"
  shows "decode_sextets ([n div 262144, n div 4096 mod 64, n div 64 mod 64, n mod 64] @ ss) =
         a # b # c # decode_sextets ss"
  by (simp only: append_Cons append_Nil decode_sextets.simps Let_def reassemble4
        split3 [OF assms(1,2), of a, folded n_def])

lemma decode_group2:
  fixes a b :: nat
  assumes "b < 256"
  defines "n \<equiv> (a * 256 + b) * 4"
  shows "decode_sextets [n div 4096, n div 64 mod 64, n mod 64] = [a, b]"
proof -
  have "n div 4 = a * 256 + b" by (simp add: n_def)
  moreover have "(a * 256 + b) div 256 = a" "(a * 256 + b) mod 256 = b" using assms by simp_all
  ultimately show ?thesis
    by (simp only: decode_sextets.simps Let_def reassemble3)
qed

lemma decode_group1:
  fixes a :: nat
  defines "n \<equiv> a * 16"
  shows "decode_sextets [n div 64, n mod 64] = [a]"
proof -
  have "n div 64 * 64 + n mod 64 = n" by simp
  moreover have "n div 16 = a" by (simp add: n_def)
  ultimately show ?thesis by (simp only: decode_sextets.simps)
qed

lemma decode_sextets_sextets: "decode_sextets (sextets bs) = map unat bs"
proof (induction bs rule: sextets.induct)
  case (1 a b c rest)
  show ?case
    using 1 decode_group3 [OF unat_byte [of b] unat_byte [of c], of "unat a" "sextets rest"]
    by (simp only: sextets.simps Let_def list.map)
next
  case (2 a b)
  show ?case
    using decode_group2 [OF unat_byte [of b], of "unat a"]
    by (simp only: sextets.simps Let_def list.map)
next
  case (3 a)
  show ?case
    using decode_group1 [of "unat a"]
    by (simp only: sextets.simps Let_def list.map)
next
  case 4
  then show ?case by simp
qed

lemma ucast_back: "(ucast (ucast (b :: byte) :: jschar) :: byte) = b"
  by (simp add: ucast_up_ucast_id is_up)

lemma those_index_char: "list_all (\<lambda>v. v < 64) ss \<Longrightarrow> those (map b64_index (map b64_char ss)) = Some ss"
  by (induction ss) (simp_all add: b64_index_char)

lemma length_sextets_mod:
  "length (sextets bs) mod 4 = (if length bs mod 3 = 0 then 0 else length bs mod 3 + 1)"
proof (induction bs rule: sextets.induct)
  case (1 a b c rest)
  have "length (a # b # c # rest) = length rest + 3" by simp
  then have "length (a # b # c # rest) mod 3 = length rest mod 3" by (simp only: mod_add_self2)
  moreover have "length (sextets (a # b # c # rest)) = length (sextets rest) + 4"
    by (simp add: Let_def)
  then have "length (sextets (a # b # c # rest)) mod 4 = length (sextets rest) mod 4"
    by (simp only: mod_add_self2)
  ultimately show ?case using 1 by (simp only:)
qed (simp_all add: Let_def)

lemma length_b64encode: "length (b64encode bs) mod 4 = 0"
proof -
  have "length bs mod 3 = 0 \<or> length bs mod 3 = 1 \<or> length bs mod 3 = 2" by arith
  moreover have "length (b64encode bs) mod 4 =
      (length (sextets bs) mod 4 + length (padding (length bs))) mod 4"
    by (simp add: b64encode_def mod_add_left_eq)
  ultimately show ?thesis
    by (auto simp add: length_sextets_mod padding_def)
qed

lemma filter_b64encode: "filter (\<lambda>c. \<not> ascii_whitespace c) (b64encode bs) = b64encode bs"
proof -
  have "\<not> ascii_whitespace 61" by (simp add: ascii_whitespace_def)
  then show ?thesis by (auto simp add: filter_id_conv b64encode_def b64_char_not_ws padding_def)
qed

lemma strip_padding_append:
  assumes "length (xs @ p) mod 4 = 0" and "p = [] \<or> p = [61] \<or> p = [61, 61]"
    and "xs = [] \<or> last xs \<noteq> 61"
  shows "strip_padding (xs @ p) = xs"
proof -
  consider "p = []" | "p = [61]" | "p = [61, 61]" using assms(2) by blast
  then show ?thesis
  proof cases
    case 1
    with assms show ?thesis by (auto simp add: strip_padding_def)
  next
    case 2
    with assms show ?thesis by (auto simp add: strip_padding_def)
  next
    case 3
    with assms show ?thesis by (auto simp add: strip_padding_def butlast_append)
  qed
qed

lemma atob_b64encode: "atob (b64encode bs) = Inr (map ucast bs)"
proof -
  have pc: "padding (length bs) = [] \<or> padding (length bs) = [61] \<or> padding (length bs) = [61, 61]"
    by (simp add: padding_def)
  have lst: "map b64_char (sextets bs) = [] \<or> last (map b64_char (sextets bs)) \<noteq> 61"
    by (cases "sextets bs = []") (simp_all add: last_map b64_char_not_pad)
  have sp: "strip_padding (b64encode bs) = map b64_char (sextets bs)"
    using strip_padding_append [OF _ pc lst] length_b64encode [of bs]
    by (simp add: b64encode_def)
  have l1: "length (sextets bs) mod 4 \<noteq> 1"
    by (simp add: length_sextets_mod)
  have th: "those (map b64_index (map b64_char (sextets bs))) = Some (sextets bs)"
    by (rule those_index_char [OF sextets_bound])
  have "atob (b64encode bs) = Inr (map of_nat (decode_sextets (sextets bs)))"
    unfolding atob_def filter_b64encode sp Let_def length_map
    by (simp only: l1 th if_False option.case)
  then show ?thesis by (simp add: decode_sextets_sextets)
qed

subsection \<open>What \<open>atob\<close> accepts\<close>

lemma those_None_iff: "those (map f xs) = None \<longleftrightarrow> \<not> list_all (\<lambda>x. f x \<noteq> None) xs"
  by (induction xs) (auto split: option.splits)

lemma atob_invalid:
  assumes "\<not> valid_base64 b"
  shows "atob b = Inl InvalidCharacterError"
proof -
  define d where "d = strip_padding (filter (\<lambda>c. \<not> ascii_whitespace c) b)"
  have "length d mod 4 = 1 \<or> those (map b64_index d) = None"
    using assms unfolding valid_base64_def Let_def d_def [symmetric] those_None_iff by blast
  then show ?thesis
    unfolding atob_def Let_def d_def [symmetric] by auto
qed

lemma atob_valid:
  assumes "valid_base64 b"
  shows "\<exists>binaryString. atob b = Inr binaryString"
proof -
  define d where "d = strip_padding (filter (\<lambda>c. \<not> ascii_whitespace c) b)"
  have "length d mod 4 \<noteq> 1" and "those (map b64_index d) \<noteq> None"
    using assms unfolding valid_base64_def Let_def d_def [symmetric] those_None_iff by blast+
  then show ?thesis
    unfolding atob_def Let_def d_def [symmetric] by auto
qed


subsection \<open>Splitting, trimming and joining the feed list\<close>

lemma split_lf_nonempty: "split_lf s \<noteq> []"
  by (induction s) (auto split: list.splits)

lemma split_lf_no_lf: "10 \<notin> set s \<Longrightarrow> split_lf s = [s]"
  by (induction s) auto

lemma split_lf_append: "10 \<notin> set x \<Longrightarrow> split_lf (x @ 10 # rest) = x # split_lf rest"
  by (induction x) auto

lemma split_lf_pieces: "p \<in> set (split_lf s) \<Longrightarrow> 10 \<notin> set p"
proof (induction s arbitrary: p)
  case Nil
  then show ?case by simp
next
  case (Cons c cs)
  obtain piece pieces where sp: "split_lf cs = piece # pieces"
    using split_lf_nonempty [of cs] by (cases "split_lf cs") auto
  show ?case
  proof (cases "c = 10")
    case True
    with Cons show ?thesis by auto
  next
    case False
    with Cons sp show ?thesis by auto
  qed
qed

lemma split_lf_join_lf:
  "feeds \<noteq> [] \<Longrightarrow> list_all (\<lambda>feed. 10 \<notin> set feed) feeds \<Longrightarrow> split_lf (join_lf feeds) = feeds"
proof (induction feeds rule: join_lf.induct)
  case 1
  then show ?case by simp
next
  case (2 x)
  then show ?case by (simp add: split_lf_no_lf)
next
  case (3 x y ys)
  then show ?case by (simp add: split_lf_append)
qed

lemma set_trim: "set (trim s) \<subseteq> set s"
proof -
  have "set (trim s) \<subseteq> set (dropWhile js_whitespace s)"
    unfolding trim_def using set_dropWhileD [of _ js_whitespace "rev (dropWhile js_whitespace s)"]
    by auto
  then show ?thesis using set_dropWhileD [of _ js_whitespace s] by auto
qed

lemma dropWhile_rev_dropWhile:
  "dropWhile P (rev (dropWhile P (rev (dropWhile P s)))) = rev (dropWhile P (rev (dropWhile P s)))"
proof (cases "rev (dropWhile P (rev (dropWhile P s))) = []")
  case True
  show ?thesis by (simp only: True dropWhile.simps)
next
  case False
  define t where "t = dropWhile P s"
  define u where "u = rev (dropWhile P (rev t))"
  have une: "u \<noteq> []" using False by (simp add: u_def t_def)
  have "rev t = takeWhile P (rev t) @ dropWhile P (rev t)" by simp
  then have "t = u @ rev (takeWhile P (rev t))"
    unfolding u_def by (metis rev_append rev_rev_ident)
  then have "hd u = hd t" and tne: "t \<noteq> []" using une by (metis hd_append2, auto)
  moreover have "\<not> P (hd t)" using tne unfolding t_def by (metis hd_dropWhile)
  ultimately have "\<not> P (hd u)" by simp
  then have "dropWhile P u = u" using une by (cases u) auto
  then show ?thesis by (simp add: u_def t_def)
qed

lemma trim_trim: "trim (trim s) = trim s"
  unfolding trim_def by (simp add: dropWhile_rev_dropWhile)

lemma map_trim_filter: "map trim (filter P (map trim xs)) = filter P (map trim xs)"
  by (induction xs) (simp_all add: trim_trim)

lemma saved_feeds_stable:
  fixes t :: jsstring
  defines "feeds \<equiv> filter (\<lambda>feed. 0 < length feed) (map trim (split_lf t))"
  shows "filter (\<lambda>feed. 0 < length feed) (map trim (split_lf (join_lf feeds))) = feeds"
proof (cases "feeds = []")
  case True
  then show ?thesis by (simp add: trim_def)
next
  case False
  have no_lf: "list_all (\<lambda>feed. 10 \<notin> set feed) feeds"
    unfolding feeds_def list_all_iff using split_lf_pieces set_trim by fastforce
  have trimmed: "map trim feeds = feeds"
    unfolding feeds_def by (rule map_trim_filter)
  have nonempty: "filter (\<lambda>feed. 0 < length feed) feeds = feeds"
    unfolding feeds_def by simp
  show ?thesis
    by (simp only: split_lf_join_lf [OF False no_lf] trimmed nonempty)
qed

lemma textarea_value_no_cr: "13 \<notin> set (textarea_value s)"
  by (induction s rule: textarea_value.induct) auto

lemma textarea_value_id: "13 \<notin> set s \<Longrightarrow> textarea_value s = s"
  by (induction s rule: textarea_value.induct) auto

lemma set_split_lf: "p \<in> set (split_lf s) \<Longrightarrow> set p \<subseteq> set s"
proof (induction s arbitrary: p)
  case Nil
  then show ?case by simp
next
  case (Cons c cs)
  obtain piece pieces where sp: "split_lf cs = piece # pieces"
    using split_lf_nonempty [of cs] by (cases "split_lf cs") auto
  show ?case
  proof (cases "c = 10")
    case True
    with Cons show ?thesis by auto
  next
    case False
    with Cons sp show ?thesis by fastforce
  qed
qed

lemma set_join_lf: "c \<in> set (join_lf feeds) \<Longrightarrow> c = 10 \<or> (\<exists>feed \<in> set feeds. c \<in> set feed)"
  by (induction feeds rule: join_lf.induct) auto

lemma saved_feeds_no_cr:
  fixes t :: jsstring
  assumes "13 \<notin> set t"
  shows "13 \<notin> set (join_lf (filter (\<lambda>feed. 0 < length feed) (map trim (split_lf t))))"
proof
  define feeds where "feeds = filter (\<lambda>feed. 0 < length feed) (map trim (split_lf t))"
  assume "13 \<in> set (join_lf (filter (\<lambda>feed. 0 < length feed) (map trim (split_lf t))))"
  then have "13 \<in> set (join_lf feeds)" by (simp only: feeds_def)
  from set_join_lf [OF this] have "\<exists>feed \<in> set feeds. 13 \<in> set feed" by simp
  then obtain feed where f: "feed \<in> set feeds" and c: "13 \<in> set feed" by blast
  from f have "feed \<in> set (map trim (split_lf t))" unfolding feeds_def by simp
  then obtain p where p: "p \<in> set (split_lf t)" and fp: "feed = trim p" by auto
  from c fp set_trim [of p] have "13 \<in> set p" by blast
  with set_split_lf [OF p] have "13 \<in> set t" by blast
  with assms show False by simp
qed

lemma saved_feeds_read_back:
  fixes raw :: jsstring
  defines "feeds \<equiv> filter (\<lambda>feed. 0 < length feed) (map trim (split_lf (textarea_value raw)))"
  shows "filter (\<lambda>feed. 0 < length feed) (map trim (split_lf (textarea_value (join_lf feeds)))) = feeds"
proof -
  have "textarea_value (join_lf feeds) = join_lf feeds"
    unfolding feeds_def
    by (rule textarea_value_id) (rule saved_feeds_no_cr [OF textarea_value_no_cr])
  then show ?thesis
    unfolding feeds_def using saved_feeds_stable [of "textarea_value raw"] by simp
qed


subsection \<open>The requests that the listeners send\<close>

lemma fetches_updateStatus [simp]: "fetches (updateStatus m st) = fetches st"
  by (simp add: updateStatus_def)

lemma fetches_showSummaryArea [simp]: "fetches (showSummaryArea b st) = fetches st"
  by (simp add: showSummaryArea_def)

lemma fetches_resetUI [simp]: "fetches (resetUI st) = fetches st"
  by (simp add: resetUI_def)

lemma fetches_playAudio [simp]: "fetches (playAudio w b st) = fetches st"
  by (simp add: playAudio_def split: option.splits)

lemma fetches_decodeAudioData [simp]: "fetches (snd (decodeAudioData w b st)) = fetches st"
  by (simp add: decodeAudioData_def split: sum.splits)

lemma fetches_try: "fetches (snd (fetchSummaryAndPlay_try w r st)) = fetches st @ [r]"
proof -
  have d: "\<And>b s e s'. decodeAudioData w b s = (e, s') \<Longrightarrow> fetches s' = fetches s"
    using fetches_decodeAudioData by (metis snd_conv)
  show ?thesis
    by (auto simp add: fetchSummaryAndPlay_try_def Let_def dest!: d
        split: sum.splits option.splits prod.splits)
qed

lemma fetches_fetchSummaryAndPlay: "fetches (fetchSummaryAndPlay w r st) = fetches st @ [r]"
  using fetches_try [of w r st]
  by (cases "fetchSummaryAndPlay_try w r st") (auto simp add: fetchSummaryAndPlay_def split: option.splits)

lemma fetches_click:
  "fetches (summarizeButton_click w st) = fetches st @
     (if sourceSelect st = js ''current_tab'' then
        (case tabs_query w of
           Inl e \<Rightarrow> []
         | Inr tabs \<Rightarrow>
             (case tabs of
                [] \<Rightarrow> []
              | currentTab # _ \<Rightarrow>
                  if invalid_url (tab_url currentTab) then []
                  else [\<lparr>summarizer_choice = js ''gemini'', url = tab_url currentTab,
                         rss_url = None\<rparr>]))
      else [\<lparr>summarizer_choice = js ''gemini'', url = None, rss_url = Some (sourceSelect st)\<rparr>])"
  by (simp add: summarizeButton_click_def Let_def fetches_fetchSummaryAndPlay
      split: sum.splits list.splits)

lemma fetches_chain:
  "fetches (snd (popup_opened_chain w u st)) =
     fetches st @ [\<lparr>summarizer_choice = js ''gemini'', url = Some u, rss_url = None\<rparr>]"
proof -
  have d: "\<And>b s e s'. decodeAudioData w b s = (e, s') \<Longrightarrow> fetches s' = fetches s"
    using fetches_decodeAudioData by (metis snd_conv)
  show ?thesis
    by (auto simp add: popup_opened_chain_def Let_def dest!: d
        split: sum.splits option.splits prod.splits)
qed

lemma fetches_popup_opened:
  "fetches (popup_opened w st) = fetches st @
     (case tabs_query w of
        Inl e \<Rightarrow> []
      | Inr tabs \<Rightarrow>
          (case tabs of
             [] \<Rightarrow> []
           | currentTab # _ \<Rightarrow>
               (case tab_url currentTab of
                  None \<Rightarrow> []
                | Some pageUrl \<Rightarrow>
                    if pageUrl = [] then []
                    else [\<lparr>summarizer_choice = js ''gemini'', url = Some pageUrl,
                           rss_url = None\<rparr>])))"
proof -
  have c: "\<And>u s e s'. popup_opened_chain w u s = (e, s') \<Longrightarrow>
      fetches s' = fetches s @ [\<lparr>summarizer_choice = js ''gemini'', url = Some u, rss_url = None\<rparr>]"
    using fetches_chain by (metis snd_conv)
  show ?thesis
    by (auto simp add: popup_opened_def Let_def dest!: c
        split: sum.splits list.splits option.splits prod.splits)
qed

lemma bg_fetches_notifications_create [simp]:
  "bg_fetches (notifications_create t m st) = bg_fetches st"
  by (simp add: notifications_create_def)

lemma bg_fetches_base64ToArrayBuffer [simp]:
  "bg_fetches (snd (base64ToArrayBuffer b st)) = bg_fetches st"
  by (simp add: base64ToArrayBuffer_def split: sum.splits)

lemma bg_fetches_playAudio [simp]: "bg_fetches (snd (bg_playAudio w b st)) = bg_fetches st"
  by (auto simp add: bg_playAudio_def ensureContext_def Let_def
      split: sum.splits option.splits prod.splits)

lemma bg_fetches_try:
  "bg_fetches (snd (onClicked_try w t st)) =
     bg_fetches st @ [\<lparr>summarizer_choice = js ''gemini'', url = tab_url t, rss_url = None\<rparr>]"
proof -
  have a: "\<And>b s e s'. base64ToArrayBuffer b s = (e, s') \<Longrightarrow> bg_fetches s' = bg_fetches s"
    using bg_fetches_base64ToArrayBuffer by (metis snd_conv)
  show ?thesis
    by (auto simp add: onClicked_try_def Let_def dest!: a
        split: sum.splits option.splits prod.splits)
qed

lemma bg_fetches_onClicked:
  "bg_fetches (onClicked w t st) = bg_fetches st @
     (if invalid_url (tab_url t) then []
      else [\<lparr>summarizer_choice = js ''gemini'', url = tab_url t, rss_url = None\<rparr>])"
proof -
  have c: "\<And>s e s'. onClicked_try w t s = (e, s') \<Longrightarrow>
      bg_fetches s' = bg_fetches s @ [\<lparr>summarizer_choice = js ''gemini'', url = tab_url t, rss_url = None\<rparr>]"
    using bg_fetches_try by (metis snd_conv)
  show ?thesis
    by (auto simp add: onClicked_def Let_def dest!: c split: option.splits prod.splits)
qed

subsection \<open>The URL check, playback starts and the stages of a run\<close>

lemma invalid_url_None: "\<not> invalid_url u \<Longrightarrow> \<exists>s. u = Some s"
  by (cases u) (simp_all add: invalid_url_def)

lemma gemini_nonempty: "js ''gemini'' \<noteq> []"
  by (simp add: js_def)

lemma distinct_run: "distinct (fst (run svc cfg req))"
  by (simp add: run_def split: sum.splits)

lemma started_try:
  "length (started (snd (fetchSummaryAndPlay_try w r st))) \<le> length (started st) + 1"
  by (auto simp add: fetchSummaryAndPlay_try_def Let_def decodeAudioData_def playAudio_def
      updateStatus_def showSummaryArea_def split: sum.splits option.splits prod.splits)

lemma started_fetchSummaryAndPlay:
  "length (started (fetchSummaryAndPlay w r st)) \<le> length (started st) + 1"
  using started_try [of w r st]
  by (cases "fetchSummaryAndPlay_try w r st")
     (auto simp add: fetchSummaryAndPlay_def updateStatus_def resetUI_def showSummaryArea_def
        split: option.splits)

lemma valid_url_scheme:
  "\<not> invalid_url (Some s) \<Longrightarrow> startsWith s (js ''http:'') \<or> startsWith s (js ''https:'')"
  by (auto simp add: invalid_url_def)

subsection \<open>The placeholder of the prompt template\<close>

lemma startsWith_append: "startsWith s m \<Longrightarrow> s = m @ drop (length m) s"
  by (induction s m rule: startsWith.induct) auto

lemma startsWith_self_append [simp]: "startsWith (m @ s) m"
  by (induction m) auto

lemma startsWith_str_includes: "startsWith s m \<Longrightarrow> str_includes s m"
  by (cases s; cases m) simp_all

lemma split_at_placeholder_Some:
  "split_at_placeholder m t = Some (before, after) \<Longrightarrow> t = before @ m @ after"
proof (induction t arbitrary: before)
  case Nil
  then show ?case by (simp split: if_splits)
next
  case (Cons c cs)
  show ?case
  proof (cases "startsWith (c # cs) m")
    case True
    with Cons.prems have "before = []" "after = drop (length m) (c # cs)" by simp_all
    with startsWith_append [OF True] show ?thesis by simp
  next
    case False
    with Cons.prems obtain b where "split_at_placeholder m cs = Some (b, after)" "before = c # b"
      by (auto split: option.splits)
    with Cons.IH show ?thesis by simp
  qed
qed

lemma split_at_placeholder_None:
  "split_at_placeholder m t = None \<longleftrightarrow> \<not> str_includes t m"
  by (induction t) (auto split: option.splits)

lemma str_includes_iff: "str_includes t m \<longleftrightarrow> (\<exists>before after. t = before @ m @ after)"
proof
  assume "str_includes t m"
  then obtain b a where "split_at_placeholder m t = Some (b, a)"
    using split_at_placeholder_None [of m t] by (cases "split_at_placeholder m t") auto
  then show "\<exists>before after. t = before @ m @ after"
    using split_at_placeholder_Some by blast
next
  assume "\<exists>before after. t = before @ m @ after"
  then obtain b a where t: "t = b @ m @ a" by blast
  show "str_includes t m"
    unfolding t
  proof (induction b)
    case Nil
    then show ?case by (simp add: startsWith_str_includes)
  next
    case (Cons c b)
    then show ?case by simp
  qed
qed


subsection \<open>Success and failure of a request\<close>

lemma sextets_nonempty: "bs \<noteq> [] \<Longrightarrow> sextets bs \<noteq> []"
  by (cases bs rule: sextets.cases) (simp_all add: Let_def)

lemma b64encode_nonempty: "bs \<noteq> [] \<Longrightarrow> b64encode bs \<noteq> []"
  by (simp add: b64encode_def sextets_nonempty)

lemma run_success:
  assumes "snd (run svc cfg req) = Inr (summary, audio)"
  shows "summary \<noteq> [] \<and> audio \<noteq> []"
  using assms
  by (auto simp add: run_def summarize_def synthesize_def b64encode_nonempty
      split: sum.splits option.splits if_splits)

lemma try_missing_fields:
  assumes "fetch w body = Inr resp" and "json resp = Inr d"
    and "\<not> truthy (summary_text d) \<or> \<not> truthy (audio_base64 d)"
  shows "\<exists>e. fst (fetchSummaryAndPlay_try w body st) = Some e"
  using assms by (auto simp add: fetchSummaryAndPlay_try_def Let_def split: option.splits)

lemma try_success:
  assumes "fst (fetchSummaryAndPlay_try w body st) = None"
  shows "\<exists>resp d. fetch w body = Inr resp \<and> ok resp \<and> json resp = Inr d \<and>
           data_error d = None \<and> truthy (summary_text d) \<and> truthy (audio_base64 d)"
  using assms
  by (auto simp add: fetchSummaryAndPlay_try_def Let_def
      split: sum.splits option.splits if_splits prod.splits)

lemma catch_clears:
  assumes "fst (fetchSummaryAndPlay_try w body st) = Some e"
  shows "summaryContainer (fetchSummaryAndPlay w body st) = [] \<and>
         replayButton_disabled (fetchSummaryAndPlay w body st) \<and>
         audioBuffer (fetchSummaryAndPlay w body st) = None \<and>
         statusDiv (fetchSummaryAndPlay w body st) = js ''Error: '' @ exn_message w e"
  using assms
  by (cases "fetchSummaryAndPlay_try w body st")
     (simp add: fetchSummaryAndPlay_def updateStatus_def resetUI_def showSummaryArea_def)

lemma chain_catch_clears:
  assumes "tabs_query w = Inr (t # ts)" and "tab_url t = Some pageUrl" and "pageUrl \<noteq> []"
    and "fst (popup_opened_chain w pageUrl st) = Some e"
  shows "summaryContainer (popup_opened w st) = [] \<and>
         replayButton_disabled (popup_opened w st) \<and>
         statusDiv (popup_opened w st) = js ''Error: '' @ exn_message w e"
  using assms
  by (cases "popup_opened_chain w pageUrl st")
     (simp add: popup_opened_def updateStatus_def)

lemma run_extract_fails:
  "extract_document svc (source_ref (req_source req)) = Inl f \<Longrightarrow>
   run svc cfg req = ([Extracting], Inl f)"
  by (simp add: run_def)

lemma run_build_fails:
  "extract_document svc (source_ref (req_source req)) = Inr document \<Longrightarrow>
   build document cfg = Inl f \<Longrightarrow>
   run svc cfg req = ([Extracting, Prompting], Inl f)"
  by (simp add: run_def)

lemma run_summarize_fails:
  "extract_document svc (source_ref (req_source req)) = Inr document \<Longrightarrow>
   build document cfg = Inr payload \<Longrightarrow>
   summarize svc payload (provider_id req) = Inl f \<Longrightarrow>
   run svc cfg req = ([Extracting, Prompting, Summarizing], Inl f)"
  by (simp add: run_def)

lemma run_synthesize_fails:
  "extract_document svc (source_ref (req_source req)) = Inr document \<Longrightarrow>
   build document cfg = Inr payload \<Longrightarrow>
   summarize svc payload (provider_id req) = Inr summary \<Longrightarrow>
   synthesize svc summary = Inl f \<Longrightarrow>
   run svc cfg req = ([Extracting, Prompting, Summarizing, Synthesizing], Inl f)"
  by (simp add: run_def)

lemma fst_decodeAudioData: "fst (decodeAudioData w b st) = fst (decodeAudioData w b st')"
  by (simp add: decodeAudioData_def split: sum.splits)

lemma try_fetch_rejected:
  "fetch w body = Inl e \<Longrightarrow> fst (fetchSummaryAndPlay_try w body st) = Some e"
  by (simp add: fetchSummaryAndPlay_try_def Let_def)

lemma try_not_ok:
  "fetch w body = Inr resp \<Longrightarrow> \<not> ok resp \<Longrightarrow>
   \<exists>e. fst (fetchSummaryAndPlay_try w body st) = Some e"
  by (simp add: fetchSummaryAndPlay_try_def Let_def split: sum.splits)

lemma try_decode_fails:
  assumes "fetch w body = Inr resp" and "ok resp" and "json resp = Inr d"
    and "data_error d = None" and "truthy (summary_text d)" and "truthy (audio_base64 d)"
    and "fst (decodeAudioData w (orElse (audio_base64 d) []) st) = Inl e"
  shows "fst (fetchSummaryAndPlay_try w body st) = Some e"
proof -
  define st4 where "st4 =
    updateStatus (js ''Decoding audio...'')
      (showSummaryArea True
        (((updateStatus (js ''Requesting summary from server...'') st)
            \<lparr>summarizeButton_disabled := True\<rparr>)
           \<lparr>fetches := fetches ((updateStatus (js ''Requesting summary from server...'') st)
                \<lparr>summarizeButton_disabled := True\<rparr>) @ [body],
            summaryContainer := orElse (summary_text d) []\<rparr>))"
  have "fst (decodeAudioData w (orElse (audio_base64 d) []) st4) = Inl e"
    using assms(7) fst_decodeAudioData [of w "orElse (audio_base64 d) []" st4 st] by simp
  then obtain s5 where "decodeAudioData w (orElse (audio_base64 d) []) st4 = (Inl e, s5)"
    by (cases "decodeAudioData w (orElse (audio_base64 d) []) st4") simp
  then show ?thesis
    using assms(1-6) unfolding fetchSummaryAndPlay_try_def Let_def st4_def by simp
qed

subsection \<open>Evaluations at concrete inputs\<close>

lemma ex_tab: "\<not> invalid_url (Some (js ''https://example.com/article''))"
  by (simp add: invalid_url_def js_def)

lemma ex_click_tab:
  "fetches (summarizeButton_click
      (unreachable \<lparr>tab_id = 1, tab_url = Some (js ''https://example.com/article'')\<rparr>)
      (popup_loaded (js ''current_tab''))) =
   [\<lparr>summarizer_choice = js ''gemini'', url = Some (js ''https://example.com/article''),
     rss_url = None\<rparr>]"
  by (simp add: fetches_click ex_tab unreachable_def popup_loaded_def)

lemma ex_click_rss:
  "fetches (summarizeButton_click
      (unreachable \<lparr>tab_id = 1, tab_url = Some (js ''https://example.com/article'')\<rparr>)
      (popup_loaded (js ''https://example.com/feed.xml''))) =
   [\<lparr>summarizer_choice = js ''gemini'', url = None,
     rss_url = Some (js ''https://example.com/feed.xml'')\<rparr>]"
  by (simp add: fetches_click unreachable_def popup_loaded_def js_def)

lemma ex_bad_tab: "invalid_url (Some (js ''chrome://extensions/''))"
  by (simp add: invalid_url_def js_def)

lemma ex_bad_feed:
  "\<not> startsWith (js ''ftp://example.com/feed.xml'') (js ''http:'') \<and>
   \<not> startsWith (js ''ftp://example.com/feed.xml'') (js ''https:'')"
  by (simp add: js_def)

lemma ex_run_trace:
  "run example_services example_config example_request =
     ([Extracting, Prompting, Summarizing, Synthesizing, Encoding],
      Inr (js ''A summary.'', js ''TWFu''))"
proof -
  have e: "b64encode [77, 97, 110] = js ''TWFu''"
    by (simp add: b64encode_def b64_char_def js_def padding_def Let_def)
  have h: "http_scheme (js ''https://example.com/article'')"
    by (simp add: http_scheme_def js_def)
  have b: "build \<lparr>raw_text = js ''Text of the article.'',
                  source_url = js ''https://example.com/article''\<rparr> example_config =
      Inr \<lparr>system_prompt = js ''Be brief.'',
           user_prompt = js ''Summarize: Text of the article.''\<rparr>"
    by (simp add: build_def example_config_def js_def)
  have t: "js ''Text of the article.'' \<noteq> []" "js ''A summary.'' \<noteq> []"
    by (simp_all add: js_def)
  show ?thesis
    by (simp add: run_def example_services_def example_request_def extract_document_def
        summarize_def synthesize_def h b t e)
qed

lemma showNat_502: "showNat 502 = js ''502''"
  by (simp add: showNat.simps [of 502] showNat.simps [of 50] showNat.simps [of 5] js_def)

lemma ex_try_failure_payload:
  "fst (fetchSummaryAndPlay_try
      (answering \<lparr>tab_id = 1, tab_url = Some (js ''https://example.com/article'')\<rparr>
         \<lparr>ok = False, status = 502, statusText = js ''Bad Gateway'',
          json = Inr (respond (Inl (Failure SynthesisFailure (js ''speech service unreachable''))))\<rparr>)
      \<lparr>summarizer_choice = js ''gemini'', url = Some (js ''https://example.com/article''),
       rss_url = None\<rparr>
      ((popup_loaded (js ''current_tab''))
         \<lparr>summaryContainer := js ''An earlier summary.'', replayButton_disabled := False,
          audioBuffer := Some (AudioBuffer [1])\<rparr>)) =
   Some (Error (js ''speech service unreachable''))"
proof -
  have m: "js ''speech service unreachable'' \<noteq> []" by (simp add: js_def)
  show ?thesis
    by (simp add: fetchSummaryAndPlay_try_def answering_def Let_def m)
qed

lemma ex_chain_failure_payload:
  "fst (popup_opened_chain
      (answering \<lparr>tab_id = 1, tab_url = Some (js ''https://example.com/article'')\<rparr>
         \<lparr>ok = False, status = 502, statusText = js ''Bad Gateway'',
          json = Inr (respond (Inl (Failure SynthesisFailure (js ''speech service unreachable''))))\<rparr>)
      (js ''https://example.com/article'')
      ((popup_loaded (js ''current_tab''))
         \<lparr>summaryContainer := js ''An earlier summary.'', replayButton_disabled := False,
          audioBuffer := Some (AudioBuffer [1])\<rparr>)) =
   Some (Error (js ''HTTP error! status: 502''))"
  by (simp add: popup_opened_chain_def answering_def Let_def showNat_502 js_def)

lemma ex_atob: "atob (js ''TWFu'') = Inr [77, 97, 110]"
  by (simp add: atob_def js_def ascii_whitespace_def strip_padding_def b64_index_def)

lemma ex_try_success:
  "fetchSummaryAndPlay_try
      (answering \<lparr>tab_id = 1, tab_url = Some (js ''https://example.com/article'')\<rparr>
         \<lparr>ok = True, status = 200, statusText = js ''OK'',
          json = Inr (respond (Inr (js ''A summary.'', js ''TWFu'')))\<rparr>)
      \<lparr>summarizer_choice = js ''gemini'', url = Some (js ''https://example.com/article''),
       rss_url = None\<rparr>
      (popup_loaded (js ''current_tab'')) =
   (None,
    (popup_loaded (js ''current_tab''))
      \<lparr>statusDiv := js ''Playing summary...'', summaryContainer := js ''A summary.'',
       summaryContainer_display := js ''block'', controlsDiv_display := js ''block'',
       replayButton_disabled := False, summarizeButton_disabled := True,
       audioBuffer := Some (AudioBuffer [77, 97, 110]),
       fetches := [\<lparr>summarizer_choice = js ''gemini'',
                     url = Some (js ''https://example.com/article''), rss_url = None\<rparr>],
       started := [AudioBuffer [77, 97, 110]]\<rparr>)"
proof -
  have m: "js ''A summary.'' \<noteq> []" "js ''TWFu'' \<noteq> []" by (simp_all add: js_def)
  show ?thesis
    by (simp add: fetchSummaryAndPlay_try_def answering_def Let_def m data_error_def
        decodeAudioData_def ex_atob binaryToBytes_map playAudio_def updateStatus_def
        showSummaryArea_def popup_loaded_def)
qed

lemma ex_try_missing_audio:
  "fst (fetchSummaryAndPlay_try
      (answering \<lparr>tab_id = 1, tab_url = Some (js ''https://example.com/article'')\<rparr>
         \<lparr>ok = True, status = 200, statusText = js ''OK'',
          json = Inr \<lparr>error = None, summary_text = Some (js ''A summary.''),
                      audio_base64 = None\<rparr>\<rparr>)
      \<lparr>summarizer_choice = js ''gemini'', url = Some (js ''https://example.com/article''),
       rss_url = None\<rparr>
      (popup_loaded (js ''current_tab''))) =
   Some (Error (js ''Server response missing summary or audio data.''))"
  by (simp add: fetchSummaryAndPlay_try_def answering_def Let_def data_error_def)

lemma ex_document_http:
  "extract_document example_services (js ''https://example.com/article'') =
     Inr \<lparr>raw_text = js ''Text of the article.'', source_url = js ''https://example.com/article''\<rparr> \<and>
   extract_document silent_services (js ''https://example.com/article'') =
     Inr \<lparr>raw_text = js ''Text of the article.'', source_url = js ''https://example.com/article''\<rparr>"
proof -
  have h: "http_scheme (js ''https://example.com/article'')"
    by (simp add: http_scheme_def js_def)
  have t: "js ''Text of the article.'' \<noteq> []" by (simp add: js_def)
  show ?thesis
    by (simp add: extract_document_def example_services_def silent_services_def h t)
qed

lemma ex_document_ftp:
  "extract_document example_services (js ''ftp://example.com/file'') =
     Inl (Failure InvalidInput (js ''unsupported URL scheme''))"
proof -
  have h: "\<not> http_scheme (js ''ftp://example.com/file'')"
    by (simp add: http_scheme_def js_def)
  show ?thesis by (simp add: extract_document_def h)
qed

lemma ex_build:
  "build \<lparr>raw_text = js ''Text of the article.'', source_url = js ''https://example.com/article''\<rparr>
     example_config =
     Inr \<lparr>system_prompt = js ''Be brief.'', user_prompt = js ''Summarize: Text of the article.''\<rparr> \<and>
   build \<lparr>raw_text = js ''Text of the article.'', source_url = js ''https://example.com/article''\<rparr>
     bare_config =
     Inl (Failure ConfigurationError (js ''prompt template lacks the text placeholder''))"
  by (simp add: build_def example_config_def bare_config_def js_def)

lemma ex_summarize:
  "summarize example_services p (js ''tertiary'') =
     Inl (Failure InvalidInput (js ''unsupported provider'')) \<and>
   summarize silent_services p (js ''primary'') = Inr (js ''A summary.'')"
  by (simp add: summarize_def example_services_def silent_services_def js_def)

lemma ex_synthesize_silent:
  "synthesize silent_services s =
     Inl (Failure SynthesisFailure (js ''speech service unreachable''))"
  by (simp add: synthesize_def silent_services_def)

lemma ex_decode_bad:
  "fst (decodeAudioData w (js ''!!!!'') st) = Inl InvalidCharacterError"
proof -
  have "atob (js ''!!!!'') = Inl InvalidCharacterError"
    by (simp add: atob_def js_def ascii_whitespace_def strip_padding_def b64_index_def)
  then show ?thesis by (simp add: decodeAudioData_def)
qed

section \<open>The claims\<close>

text \<open>
  C1, as the claim states it, fails: with an RSS feed selected in the popup, a click
  sends the request although the URL of the feed starts with neither \<open>http:\<close> nor
  \<open>https:\<close>.
\<close>

theorem non_http_rejected_counterexample:
  "\<not> startsWith (js ''ftp://example.com/feed.xml'') (js ''http:'') \<and>
   \<not> startsWith (js ''ftp://example.com/feed.xml'') (js ''https:'') \<and>
   fetches (summarizeButton_click
      (unreachable \<lparr>tab_id = 1, tab_url = Some (js ''https://example.com/article'')\<rparr>)
      (popup_loaded (js ''ftp://example.com/feed.xml''))) =
     [\<lparr>summarizer_choice = js ''gemini'', url = None,
       rss_url = Some (js ''ftp://example.com/feed.xml'')\<rparr>]"
  using ex_bad_feed
  by (simp add: fetches_click unreachable_def popup_loaded_def js_def)

text \<open>
  C1, amended. The URL of the tab is checked before any fetch. When it is absent, empty
  or starts with neither \<open>http:\<close> nor \<open>https:\<close>, the listener of the toolbar icon only
  creates the notification that the page cannot be summarized, and the click listener
  of the popup, with the current tab as source, sends nothing and shows
  \<open>Error: Invalid URL for current tab.\<close>; every request that these two listeners send
  with a \<open>url\<close> key has a URL that starts with \<open>http:\<close> or \<open>https:\<close>. (The URL of an
  RSS feed goes into \<open>rss_url\<close> unchecked.)
\<close>

theorem tab_url_checked_before_fetch:
  "(invalid_url (tab_url t) \<longrightarrow>
      onClicked w t bst =
        notifications_create title_cannot_summarize message_invalid_url bst \<and>
      bg_fetches (onClicked w t bst) = bg_fetches bst) \<and>
   (invalid_url (tab_url t) \<and> tabs_query w = Inr (t # ts) \<and>
    sourceSelect st = js ''current_tab'' \<longrightarrow>
      fetches (summarizeButton_click w st) = fetches st \<and>
      statusDiv (summarizeButton_click w st) = js ''Error: Invalid URL for current tab.'') \<and>
   (\<exists>new. bg_fetches (onClicked w t bst) = bg_fetches bst @ new \<and>
      list_all (\<lambda>body. case url body of
                          None \<Rightarrow> True
                        | Some u \<Rightarrow> startsWith u (js ''http:'') \<or> startsWith u (js ''https:''))
        new) \<and>
   (\<exists>new. fetches (summarizeButton_click w st) = fetches st @ new \<and>
      list_all (\<lambda>body. case url body of
                          None \<Rightarrow> True
                        | Some u \<Rightarrow> startsWith u (js ''http:'') \<or> startsWith u (js ''https:''))
        new)"
proof (intro conjI impI)
  assume "invalid_url (tab_url t)"
  then show "onClicked w t bst =
      notifications_create title_cannot_summarize message_invalid_url bst"
    by (simp add: onClicked_def)
next
  assume "invalid_url (tab_url t)"
  then show "bg_fetches (onClicked w t bst) = bg_fetches bst"
    by (simp add: bg_fetches_onClicked)
next
  assume a: "invalid_url (tab_url t) \<and> tabs_query w = Inr (t # ts) \<and>
    sourceSelect st = js ''current_tab''"
  then show "fetches (summarizeButton_click w st) = fetches st"
    by (simp add: fetches_click)
  from a show "statusDiv (summarizeButton_click w st) = js ''Error: Invalid URL for current tab.''"
    by (simp add: summarizeButton_click_def Let_def updateStatus_def)
next
  show "\<exists>new. bg_fetches (onClicked w t bst) = bg_fetches bst @ new \<and>
      list_all (\<lambda>body. case url body of
                          None \<Rightarrow> True
                        | Some u \<Rightarrow> startsWith u (js ''http:'') \<or> startsWith u (js ''https:''))
        new"
    unfolding bg_fetches_onClicked
    by (auto dest: valid_url_scheme split: option.splits)
next
  show "\<exists>new. fetches (summarizeButton_click w st) = fetches st @ new \<and>
      list_all (\<lambda>body. case url body of
                          None \<Rightarrow> True
                        | Some u \<Rightarrow> startsWith u (js ''http:'') \<or> startsWith u (js ''https:''))
        new"
    unfolding fetches_click
    by (auto dest: valid_url_scheme split: sum.splits list.splits option.splits)
qed

theorem tab_url_checked_before_fetch_witness:
  "invalid_url (Some (js ''chrome://extensions/'')) \<and>
   onClicked (unreachable \<lparr>tab_id = 1, tab_url = Some (js ''chrome://extensions/'')\<rparr>)
      \<lparr>tab_id = 1, tab_url = Some (js ''chrome://extensions/'')\<rparr> background_loaded =
     background_loaded
       \<lparr>notifications :=
          [\<lparr>ntype = js ''basic'', iconUrl = js ''icons/icon48.png'',
            title = title_cannot_summarize, message = message_invalid_url\<rparr>]\<rparr> \<and>
   fetches (summarizeButton_click
      (unreachable \<lparr>tab_id = 1, tab_url = Some (js ''chrome://extensions/'')\<rparr>)
      (popup_loaded (js ''current_tab''))) = [] \<and>
   statusDiv (summarizeButton_click
      (unreachable \<lparr>tab_id = 1, tab_url = Some (js ''chrome://extensions/'')\<rparr>)
      (popup_loaded (js ''current_tab''))) = js ''Error: Invalid URL for current tab.''"
  using ex_bad_tab
    tab_url_checked_before_fetch [of
      "\<lparr>tab_id = 1, tab_url = Some (js ''chrome://extensions/'')\<rparr>"
      "unreachable \<lparr>tab_id = 1, tab_url = Some (js ''chrome://extensions/'')\<rparr>"
      background_loaded "[]" "popup_loaded (js ''current_tab'')"]
  by (simp add: unreachable_def popup_loaded_def background_loaded_def notifications_create_def)

text \<open>
  C2. Round trip: for every byte sequence, the base64 encoding decoded by
  \<open>base64ToArrayBuffer\<close> is the same byte sequence (same length, the same byte at every
  index), with no notification; and \<open>decodeAudioData\<close> of the popup hands the same
  byte sequence to the platform's audio decoder.
\<close>

theorem base64_round_trip:
  "base64ToArrayBuffer (b64encode bs) st = (Inr bs, st) \<and>
   decodeAudioData w (b64encode bs) pst =
     (case decodeAudio w bs of
        Inl e \<Rightarrow> (Inl e, updateStatus (js ''Error: Could not decode audio.'') pst)
      | Inr buffer \<Rightarrow> (Inr buffer, pst))"
  by (simp add: base64ToArrayBuffer_def decodeAudioData_def atob_b64encode binaryToBytes_map
      comp_def ucast_back)

theorem base64_round_trip_witness:
  "b64encode [77, 97, 110] = js ''TWFu'' \<and> b64encode [77, 97] = js ''TWE='' \<and>
   b64encode [77] = js ''TQ=='' \<and>
   base64ToArrayBuffer (js ''TWFu'') background_loaded = (Inr [77, 97, 110], background_loaded) \<and>
   base64ToArrayBuffer (js ''TWE='') background_loaded = (Inr [77, 97], background_loaded) \<and>
   base64ToArrayBuffer (js ''TQ=='') background_loaded = (Inr [77], background_loaded)"
proof -
  have e: "b64encode [77, 97, 110] = js ''TWFu''" "b64encode [77, 97] = js ''TWE=''"
    "b64encode [77] = js ''TQ==''"
    by (simp_all add: b64encode_def b64_char_def js_def padding_def Let_def)
  show ?thesis
    using base64_round_trip [of "[77, 97, 110]" background_loaded]
      base64_round_trip [of "[77, 97]" background_loaded]
      base64_round_trip [of "[77]" background_loaded]
    unfolding e by simp
qed


text \<open>
  C3. A failure at any stage gives one error result and nothing else. When the
  extractor, the prompt builder, the gateway or the synthesizer fails, \<open>run\<close> stops
  there and returns that failure as its one result, and the payload of the response has
  the \<open>error\<close> field and neither \<open>summary_text\<close> nor \<open>audio_base64\<close>: so also when the
  synthesizer fails after the summary was produced. On the side of the consumer,
  \<open>fetchSummaryAndPlay\<close> throws when \<open>fetch\<close> rejects, when the response is not \<open>ok\<close>,
  when the response carries a failure payload and when the audio does not decode after
  the summary was shown; and whenever its \<open>try\<close> block, or the promise chain of the
  first popup, throws, the \<open>catch\<close> block leaves the summary empty, the replay button
  disabled and the error message in the status line.
\<close>

theorem fail_fast_no_partial_result:
  "(extract_document svc (source_ref (req_source req)) = Inl (Failure k m) \<longrightarrow>
      run svc cfg req = ([Extracting], Inl (Failure k m)) \<and>
      respond (snd (run svc cfg req)) =
        \<lparr>error = Some m, summary_text = None, audio_base64 = None\<rparr>) \<and>
   (extract_document svc (source_ref (req_source req)) = Inr document \<and>
    build document cfg = Inl (Failure k m) \<longrightarrow>
      run svc cfg req = ([Extracting, Prompting], Inl (Failure k m)) \<and>
      respond (snd (run svc cfg req)) =
        \<lparr>error = Some m, summary_text = None, audio_base64 = None\<rparr>) \<and>
   (extract_document svc (source_ref (req_source req)) = Inr document \<and>
    build document cfg = Inr payload \<and>
    summarize svc payload (provider_id req) = Inl (Failure k m) \<longrightarrow>
      run svc cfg req = ([Extracting, Prompting, Summarizing], Inl (Failure k m)) \<and>
      respond (snd (run svc cfg req)) =
        \<lparr>error = Some m, summary_text = None, audio_base64 = None\<rparr>) \<and>
   (extract_document svc (source_ref (req_source req)) = Inr document \<and>
    build document cfg = Inr payload \<and>
    summarize svc payload (provider_id req) = Inr summary \<and>
    synthesize svc summary = Inl (Failure k m) \<longrightarrow>
      run svc cfg req =
        ([Extracting, Prompting, Summarizing, Synthesizing], Inl (Failure k m)) \<and>
      respond (snd (run svc cfg req)) =
        \<lparr>error = Some m, summary_text = None, audio_base64 = None\<rparr>) \<and>
   (snd (run svc cfg req) = Inl f \<longrightarrow>
      (\<exists>k' m'. f = Failure k' m' \<and>
         respond (snd (run svc cfg req)) =
           \<lparr>error = Some m', summary_text = None, audio_base64 = None\<rparr>)) \<and>
   (fetch w body = Inl e \<longrightarrow> fst (fetchSummaryAndPlay_try w body st) = Some e) \<and>
   (fetch w body = Inr resp \<and> \<not> ok resp \<longrightarrow>
      (\<exists>e'. fst (fetchSummaryAndPlay_try w body st) = Some e')) \<and>
   (fetch w body = Inr resp \<and> json resp = Inr (respond (Inl f)) \<longrightarrow>
      (\<exists>e'. fst (fetchSummaryAndPlay_try w body st) = Some e')) \<and>
   (fetch w body = Inr resp \<and> ok resp \<and> json resp = Inr d \<and> data_error d = None \<and>
    truthy (summary_text d) \<and> truthy (audio_base64 d) \<and>
    fst (decodeAudioData w (orElse (audio_base64 d) []) st) = Inl e \<longrightarrow>
      fst (fetchSummaryAndPlay_try w body st) = Some e) \<and>
   (fst (fetchSummaryAndPlay_try w body st) = Some e \<longrightarrow>
      summaryContainer (fetchSummaryAndPlay w body st) = [] \<and>
      replayButton_disabled (fetchSummaryAndPlay w body st) \<and>
      audioBuffer (fetchSummaryAndPlay w body st) = None \<and>
      statusDiv (fetchSummaryAndPlay w body st) = js ''Error: '' @ exn_message w e) \<and>
   (tabs_query w = Inr (t # ts) \<and> tab_url t = Some pageUrl \<and> pageUrl \<noteq> [] \<and>
    fst (popup_opened_chain w pageUrl st) = Some e \<longrightarrow>
      summaryContainer (popup_opened w st) = [] \<and>
      replayButton_disabled (popup_opened w st) \<and>
      statusDiv (popup_opened w st) = js ''Error: '' @ exn_message w e)"
proof -
  have c1: "extract_document svc (source_ref (req_source req)) = Inl (Failure k m) \<longrightarrow>
      run svc cfg req = ([Extracting], Inl (Failure k m)) \<and>
      respond (snd (run svc cfg req)) =
        \<lparr>error = Some m, summary_text = None, audio_base64 = None\<rparr>"
    by (simp add: run_extract_fails)
  have c2: "extract_document svc (source_ref (req_source req)) = Inr document \<and>
    build document cfg = Inl (Failure k m) \<longrightarrow>
      run svc cfg req = ([Extracting, Prompting], Inl (Failure k m)) \<and>
      respond (snd (run svc cfg req)) =
        \<lparr>error = Some m, summary_text = None, audio_base64 = None\<rparr>"
    by (simp add: run_build_fails)
  have c3: "extract_document svc (source_ref (req_source req)) = Inr document \<and>
    build document cfg = Inr payload \<and>
    summarize svc payload (provider_id req) = Inl (Failure k m) \<longrightarrow>
      run svc cfg req = ([Extracting, Prompting, Summarizing], Inl (Failure k m)) \<and>
      respond (snd (run svc cfg req)) =
        \<lparr>error = Some m, summary_text = None, audio_base64 = None\<rparr>"
    by (simp add: run_summarize_fails)
  have c4: "extract_document svc (source_ref (req_source req)) = Inr document \<and>
    build document cfg = Inr payload \<and>
    summarize svc payload (provider_id req) = Inr summary \<and>
    synthesize svc summary = Inl (Failure k m) \<longrightarrow>
      run svc cfg req =
        ([Extracting, Prompting, Summarizing, Synthesizing], Inl (Failure k m)) \<and>
      respond (snd (run svc cfg req)) =
        \<lparr>error = Some m, summary_text = None, audio_base64 = None\<rparr>"
    by (simp add: run_synthesize_fails)
  have c5: "snd (run svc cfg req) = Inl f \<longrightarrow>
      (\<exists>k' m'. f = Failure k' m' \<and>
         respond (snd (run svc cfg req)) =
           \<lparr>error = Some m', summary_text = None, audio_base64 = None\<rparr>)"
    by (cases f) simp
  have c6: "fetch w body = Inl e \<longrightarrow> fst (fetchSummaryAndPlay_try w body st) = Some e"
    by (simp add: try_fetch_rejected)
  have c7: "fetch w body = Inr resp \<and> \<not> ok resp \<longrightarrow>
      (\<exists>e'. fst (fetchSummaryAndPlay_try w body st) = Some e')"
    using try_not_ok by blast
  have "\<not> truthy (summary_text (respond (Inl f)))" by (cases f) simp
  then have c8: "fetch w body = Inr resp \<and> json resp = Inr (respond (Inl f)) \<longrightarrow>
      (\<exists>e'. fst (fetchSummaryAndPlay_try w body st) = Some e')"
    using try_missing_fields by blast
  have c9: "fetch w body = Inr resp \<and> ok resp \<and> json resp = Inr d \<and> data_error d = None \<and>
    truthy (summary_text d) \<and> truthy (audio_base64 d) \<and>
    fst (decodeAudioData w (orElse (audio_base64 d) []) st) = Inl e \<longrightarrow>
      fst (fetchSummaryAndPlay_try w body st) = Some e"
    using try_decode_fails by blast
  have c10: "fst (fetchSummaryAndPlay_try w body st) = Some e \<longrightarrow>
      summaryContainer (fetchSummaryAndPlay w body st) = [] \<and>
      replayButton_disabled (fetchSummaryAndPlay w body st) \<and>
      audioBuffer (fetchSummaryAndPlay w body st) = None \<and>
      statusDiv (fetchSummaryAndPlay w body st) = js ''Error: '' @ exn_message w e"
    using catch_clears by blast
  have c11: "tabs_query w = Inr (t # ts) \<and> tab_url t = Some pageUrl \<and> pageUrl \<noteq> [] \<and>
    fst (popup_opened_chain w pageUrl st) = Some e \<longrightarrow>
      summaryContainer (popup_opened w st) = [] \<and>
      replayButton_disabled (popup_opened w st) \<and>
      statusDiv (popup_opened w st) = js ''Error: '' @ exn_message w e"
    using chain_catch_clears by blast
  from c1 c2 c3 c4 c5 c6 c7 c8 c9 c10 c11 show ?thesis by (intro conjI)
qed

theorem fail_fast_no_partial_result_witness:
  "run example_services example_config ftp_request =
     ([Extracting], Inl (Failure InvalidInput (js ''unsupported URL scheme''))) \<and>
   run example_services bare_config example_request =
     ([Extracting, Prompting],
      Inl (Failure ConfigurationError (js ''prompt template lacks the text placeholder''))) \<and>
   run example_services example_config unknown_provider_request =
     ([Extracting, Prompting, Summarizing],
      Inl (Failure InvalidInput (js ''unsupported provider''))) \<and>
   run silent_services example_config example_request =
     ([Extracting, Prompting, Summarizing, Synthesizing], Inl (Failure SynthesisFailure (js ''speech service unreachable''))) \<and>
   respond (snd (run silent_services example_config example_request)) =
     \<lparr>error = Some (js ''speech service unreachable''), summary_text = None,
      audio_base64 = None\<rparr> \<and>
   fst (fetchSummaryAndPlay_try (unreachable \<lparr>tab_id = 1, tab_url = Some (js ''https://example.com/article'')\<rparr>) \<lparr>summarizer_choice = js ''gemini'', url = Some (js ''https://example.com/article''), rss_url = None\<rparr> ((popup_loaded (js ''current_tab'')) \<lparr>summaryContainer := js ''An earlier summary.'', replayButton_disabled := False, audioBuffer := Some (AudioBuffer [1])\<rparr>)) = Some (Rejected (js ''Failed to fetch'')) \<and>
   summaryContainer (fetchSummaryAndPlay (unreachable \<lparr>tab_id = 1, tab_url = Some (js ''https://example.com/article'')\<rparr>) \<lparr>summarizer_choice = js ''gemini'', url = Some (js ''https://example.com/article''), rss_url = None\<rparr> ((popup_loaded (js ''current_tab'')) \<lparr>summaryContainer := js ''An earlier summary.'', replayButton_disabled := False, audioBuffer := Some (AudioBuffer [1])\<rparr>)) = [] \<and>
   replayButton_disabled (fetchSummaryAndPlay (unreachable \<lparr>tab_id = 1, tab_url = Some (js ''https://example.com/article'')\<rparr>) \<lparr>summarizer_choice = js ''gemini'', url = Some (js ''https://example.com/article''), rss_url = None\<rparr> ((popup_loaded (js ''current_tab'')) \<lparr>summaryContainer := js ''An earlier summary.'', replayButton_disabled := False, audioBuffer := Some (AudioBuffer [1])\<rparr>)) \<and>
   statusDiv (fetchSummaryAndPlay (unreachable \<lparr>tab_id = 1, tab_url = Some (js ''https://example.com/article'')\<rparr>) \<lparr>summarizer_choice = js ''gemini'', url = Some (js ''https://example.com/article''), rss_url = None\<rparr> ((popup_loaded (js ''current_tab'')) \<lparr>summaryContainer := js ''An earlier summary.'', replayButton_disabled := False, audioBuffer := Some (AudioBuffer [1])\<rparr>)) = js ''Error: '' @ js ''Failed to fetch'' \<and>
   summaryContainer (fetchSummaryAndPlay (answering \<lparr>tab_id = 1, tab_url = Some (js ''https://example.com/article'')\<rparr> \<lparr>ok = False, status = 502, statusText = js ''Bad Gateway'', json = Inr (respond (Inl (Failure SynthesisFailure (js ''speech service unreachable''))))\<rparr>) \<lparr>summarizer_choice = js ''gemini'', url = Some (js ''https://example.com/article''), rss_url = None\<rparr> ((popup_loaded (js ''current_tab'')) \<lparr>summaryContainer := js ''An earlier summary.'', replayButton_disabled := False, audioBuffer := Some (AudioBuffer [1])\<rparr>)) = [] \<and>
   replayButton_disabled (fetchSummaryAndPlay (answering \<lparr>tab_id = 1, tab_url = Some (js ''https://example.com/article'')\<rparr> \<lparr>ok = False, status = 502, statusText = js ''Bad Gateway'', json = Inr (respond (Inl (Failure SynthesisFailure (js ''speech service unreachable''))))\<rparr>) \<lparr>summarizer_choice = js ''gemini'', url = Some (js ''https://example.com/article''), rss_url = None\<rparr> ((popup_loaded (js ''current_tab'')) \<lparr>summaryContainer := js ''An earlier summary.'', replayButton_disabled := False, audioBuffer := Some (AudioBuffer [1])\<rparr>)) \<and>
   statusDiv (fetchSummaryAndPlay (answering \<lparr>tab_id = 1, tab_url = Some (js ''https://example.com/article'')\<rparr> \<lparr>ok = False, status = 502, statusText = js ''Bad Gateway'', json = Inr (respond (Inl (Failure SynthesisFailure (js ''speech service unreachable''))))\<rparr>) \<lparr>summarizer_choice = js ''gemini'', url = Some (js ''https://example.com/article''), rss_url = None\<rparr> ((popup_loaded (js ''current_tab'')) \<lparr>summaryContainer := js ''An earlier summary.'', replayButton_disabled := False, audioBuffer := Some (AudioBuffer [1])\<rparr>)) =
     js ''Error: '' @ js ''speech service unreachable'' \<and>
   fst (fetchSummaryAndPlay_try (answering \<lparr>tab_id = 1, tab_url = Some (js ''https://example.com/article'')\<rparr> \<lparr>ok = True, status = 200, statusText = js ''OK'', json = Inr \<lparr>error = None, summary_text = Some (js ''A summary.''), audio_base64 = Some (js ''!!!!'')\<rparr>\<rparr>) \<lparr>summarizer_choice = js ''gemini'', url = Some (js ''https://example.com/article''), rss_url = None\<rparr> ((popup_loaded (js ''current_tab'')) \<lparr>summaryContainer := js ''An earlier summary.'', replayButton_disabled := False, audioBuffer := Some (AudioBuffer [1])\<rparr>)) = Some InvalidCharacterError \<and>
   summaryContainer (fetchSummaryAndPlay (answering \<lparr>tab_id = 1, tab_url = Some (js ''https://example.com/article'')\<rparr> \<lparr>ok = True, status = 200, statusText = js ''OK'', json = Inr \<lparr>error = None, summary_text = Some (js ''A summary.''), audio_base64 = Some (js ''!!!!'')\<rparr>\<rparr>) \<lparr>summarizer_choice = js ''gemini'', url = Some (js ''https://example.com/article''), rss_url = None\<rparr> ((popup_loaded (js ''current_tab'')) \<lparr>summaryContainer := js ''An earlier summary.'', replayButton_disabled := False, audioBuffer := Some (AudioBuffer [1])\<rparr>)) = [] \<and>
   replayButton_disabled (fetchSummaryAndPlay (answering \<lparr>tab_id = 1, tab_url = Some (js ''https://example.com/article'')\<rparr> \<lparr>ok = True, status = 200, statusText = js ''OK'', json = Inr \<lparr>error = None, summary_text = Some (js ''A summary.''), audio_base64 = Some (js ''!!!!'')\<rparr>\<rparr>) \<lparr>summarizer_choice = js ''gemini'', url = Some (js ''https://example.com/article''), rss_url = None\<rparr> ((popup_loaded (js ''current_tab'')) \<lparr>summaryContainer := js ''An earlier summary.'', replayButton_disabled := False, audioBuffer := Some (AudioBuffer [1])\<rparr>)) \<and>
   statusDiv (fetchSummaryAndPlay (answering \<lparr>tab_id = 1, tab_url = Some (js ''https://example.com/article'')\<rparr> \<lparr>ok = True, status = 200, statusText = js ''OK'', json = Inr \<lparr>error = None, summary_text = Some (js ''A summary.''), audio_base64 = Some (js ''!!!!'')\<rparr>\<rparr>) \<lparr>summarizer_choice = js ''gemini'', url = Some (js ''https://example.com/article''), rss_url = None\<rparr> ((popup_loaded (js ''current_tab'')) \<lparr>summaryContainer := js ''An earlier summary.'', replayButton_disabled := False, audioBuffer := Some (AudioBuffer [1])\<rparr>)) =
     js ''Error: '' @ js ''The string to be decoded is not correctly encoded.'' \<and>
   summaryContainer (popup_opened (answering \<lparr>tab_id = 1, tab_url = Some (js ''https://example.com/article'')\<rparr> \<lparr>ok = False, status = 502, statusText = js ''Bad Gateway'', json = Inr (respond (Inl (Failure SynthesisFailure (js ''speech service unreachable''))))\<rparr>) ((popup_loaded (js ''current_tab'')) \<lparr>summaryContainer := js ''An earlier summary.'', replayButton_disabled := False, audioBuffer := Some (AudioBuffer [1])\<rparr>)) = [] \<and>
   replayButton_disabled (popup_opened (answering \<lparr>tab_id = 1, tab_url = Some (js ''https://example.com/article'')\<rparr> \<lparr>ok = False, status = 502, statusText = js ''Bad Gateway'', json = Inr (respond (Inl (Failure SynthesisFailure (js ''speech service unreachable''))))\<rparr>) ((popup_loaded (js ''current_tab'')) \<lparr>summaryContainer := js ''An earlier summary.'', replayButton_disabled := False, audioBuffer := Some (AudioBuffer [1])\<rparr>)) \<and>
   statusDiv (popup_opened (answering \<lparr>tab_id = 1, tab_url = Some (js ''https://example.com/article'')\<rparr> \<lparr>ok = False, status = 502, statusText = js ''Bad Gateway'', json = Inr (respond (Inl (Failure SynthesisFailure (js ''speech service unreachable''))))\<rparr>) ((popup_loaded (js ''current_tab'')) \<lparr>summaryContainer := js ''An earlier summary.'', replayButton_disabled := False, audioBuffer := Some (AudioBuffer [1])\<rparr>)) = js ''Error: '' @ js ''HTTP error! status: 502''"
proof -
  define T where "T = \<lparr>tab_id = 1, tab_url = Some (js ''https://example.com/article'')\<rparr>"
  define B where "B = \<lparr>summarizer_choice = js ''gemini'', url = Some (js ''https://example.com/article''), rss_url = None\<rparr>"
  define S where "S = ((popup_loaded (js ''current_tab'')) \<lparr>summaryContainer := js ''An earlier summary.'', replayButton_disabled := False, audioBuffer := Some (AudioBuffer [1])\<rparr>)"
  define F where "F = (Failure SynthesisFailure (js ''speech service unreachable''))"
  define R502 where "R502 = \<lparr>ok = False, status = 502, statusText = js ''Bad Gateway'', json = Inr (respond (Inl F))\<rparr>"
  define DBAD where "DBAD = \<lparr>error = None, summary_text = Some (js ''A summary.''), audio_base64 = Some (js ''!!!!'')\<rparr>"
  define RBAD where "RBAD = \<lparr>ok = True, status = 200, statusText = js ''OK'', json = Inr DBAD\<rparr>"
  define DOC where "DOC = \<lparr>raw_text = js ''Text of the article.'', source_url = js ''https://example.com/article''\<rparr>"
  define PAY where "PAY = \<lparr>system_prompt = js ''Be brief.'', user_prompt = js ''Summarize: Text of the article.''\<rparr>"
  have src: "source_ref (req_source ftp_request) = js ''ftp://example.com/file''"
    "source_ref (req_source example_request) = js ''https://example.com/article''"
    "source_ref (req_source unknown_provider_request) = js ''https://example.com/article''"
    "provider_id example_request = js ''primary''"
    "provider_id unknown_provider_request = js ''tertiary''"
    by (simp_all add: ftp_request_def example_request_def unknown_provider_request_def)
  have x1: "extract_document example_services (source_ref (req_source ftp_request)) =
      Inl (Failure InvalidInput (js ''unsupported URL scheme''))"
    unfolding src by (rule ex_document_ftp)
  have x2: "extract_document example_services (source_ref (req_source example_request)) = Inr DOC"
    "extract_document example_services (source_ref (req_source unknown_provider_request)) = Inr DOC"
    "extract_document silent_services (source_ref (req_source example_request)) = Inr DOC"
    unfolding src DOC_def using ex_document_http by simp_all
  have b: "build DOC example_config = Inr PAY"
    "build DOC bare_config =
       Inl (Failure ConfigurationError (js ''prompt template lacks the text placeholder''))"
    unfolding DOC_def PAY_def using ex_build by simp_all
  have s: "summarize example_services PAY (provider_id unknown_provider_request) =
       Inl (Failure InvalidInput (js ''unsupported provider''))"
    "summarize silent_services PAY (provider_id example_request) = Inr (js ''A summary.'')"
    unfolding src using ex_summarize [of PAY] by simp_all
  have y: "synthesize silent_services (js ''A summary.'') = Inl F"
    unfolding F_def by (rule ex_synthesize_silent)
  have r1: "run example_services example_config ftp_request =
     ([Extracting], Inl (Failure InvalidInput (js ''unsupported URL scheme'')))"
    using x1
      fail_fast_no_partial_result [where svc = example_services and cfg = example_config and req = ftp_request
        and k = InvalidInput and m = "js ''unsupported URL scheme''" and document = DOC and payload = PAY
        and summary = "js ''A summary.''" and f = F and w = "answering T R502" and body = B and e = "Error (js ''speech service unreachable'')"
        and resp = R502 and d = DBAD and st = S and t = T and ts = "[]"
        and pageUrl = "js ''https://example.com/article''"]
    by simp
  have r2: "run example_services bare_config example_request =
     ([Extracting, Prompting],
      Inl (Failure ConfigurationError (js ''prompt template lacks the text placeholder'')))"
    using x2 b
      fail_fast_no_partial_result [where svc = example_services and cfg = bare_config and req = example_request
        and k = ConfigurationError and m = "js ''prompt template lacks the text placeholder''" and document = DOC and payload = PAY
        and summary = "js ''A summary.''" and f = F and w = "answering T R502" and body = B and e = "Error (js ''speech service unreachable'')"
        and resp = R502 and d = DBAD and st = S and t = T and ts = "[]"
        and pageUrl = "js ''https://example.com/article''"]
    by simp
  have r3: "run example_services example_config unknown_provider_request =
     ([Extracting, Prompting, Summarizing],
      Inl (Failure InvalidInput (js ''unsupported provider'')))"
    using x2 b s
      fail_fast_no_partial_result [where svc = example_services and cfg = example_config and req = unknown_provider_request
        and k = InvalidInput and m = "js ''unsupported provider''" and document = DOC and payload = PAY
        and summary = "js ''A summary.''" and f = F and w = "answering T R502" and body = B and e = "Error (js ''speech service unreachable'')"
        and resp = R502 and d = DBAD and st = S and t = T and ts = "[]"
        and pageUrl = "js ''https://example.com/article''"]
    by simp
  have q502: "fetch (answering T R502) B = Inr R502" "\<not> ok R502" "json R502 = Inr (respond (Inl F))"
    "tabs_query (answering T R502) = Inr (T # [])"
    "tab_url T = Some (js ''https://example.com/article'')"
    "js ''https://example.com/article'' \<noteq> []"
    by (simp_all add: answering_def R502_def T_def js_def)
  have t502: "fst (fetchSummaryAndPlay_try (answering T R502) B S) =
      Some (Error (js ''speech service unreachable''))"
    unfolding F_def T_def R502_def B_def S_def by (rule ex_try_failure_payload)
  have c502: "fst (popup_opened_chain (answering T R502) (js ''https://example.com/article'') S) =
      Some (Error (js ''HTTP error! status: 502''))"
    unfolding F_def T_def R502_def B_def S_def by (rule ex_chain_failure_payload)
  have r4: "run silent_services example_config example_request =
     ([Extracting, Prompting, Summarizing, Synthesizing], Inl F) \<and>
   respond (snd (run silent_services example_config example_request)) =
     \<lparr>error = Some (js ''speech service unreachable''), summary_text = None,
      audio_base64 = None\<rparr> \<and>
   summaryContainer (fetchSummaryAndPlay (answering T R502) B S) = [] \<and>
   replayButton_disabled (fetchSummaryAndPlay (answering T R502) B S) \<and>
   statusDiv (fetchSummaryAndPlay (answering T R502) B S) =
     js ''Error: '' @ js ''speech service unreachable''"
    using x2 b s y [unfolded F_def] q502 t502
      fail_fast_no_partial_result [where svc = silent_services and cfg = example_config and req = example_request
        and k = SynthesisFailure and m = "js ''speech service unreachable''" and document = DOC and payload = PAY
        and summary = "js ''A summary.''" and f = F and w = "answering T R502" and body = B and e = "Error (js ''speech service unreachable'')"
        and resp = R502 and d = DBAD and st = S and t = T and ts = "[]"
        and pageUrl = "js ''https://example.com/article''"]
    by (simp add: F_def)
  have r5: "summaryContainer (popup_opened (answering T R502) S) = [] \<and>
   replayButton_disabled (popup_opened (answering T R502) S) \<and>
   statusDiv (popup_opened (answering T R502) S) = js ''Error: '' @ js ''HTTP error! status: 502''"
    using q502 c502
      fail_fast_no_partial_result [where svc = silent_services and cfg = example_config and req = example_request
        and k = SynthesisFailure and m = "js ''speech service unreachable''" and document = DOC and payload = PAY
        and summary = "js ''A summary.''" and f = F and w = "answering T R502" and body = B and e = "Error (js ''HTTP error! status: 502'')"
        and resp = R502 and d = DBAD and st = S and t = T and ts = "[]"
        and pageUrl = "js ''https://example.com/article''"]
    by simp
  have qoff: "fetch (unreachable T) B = Inl (Rejected (js ''Failed to fetch''))"
    by (simp add: unreachable_def)
  have r6: "fst (fetchSummaryAndPlay_try (unreachable T) B S) = Some (Rejected (js ''Failed to fetch'')) \<and>
   summaryContainer (fetchSummaryAndPlay (unreachable T) B S) = [] \<and>
   replayButton_disabled (fetchSummaryAndPlay (unreachable T) B S) \<and>
   statusDiv (fetchSummaryAndPlay (unreachable T) B S) = js ''Error: '' @ js ''Failed to fetch''"
    using qoff
      fail_fast_no_partial_result [where svc = silent_services and cfg = example_config and req = example_request
        and k = SynthesisFailure and m = "js ''speech service unreachable''" and document = DOC and payload = PAY
        and summary = "js ''A summary.''" and f = F and w = "unreachable T" and body = B and e = "Rejected (js ''Failed to fetch'')"
        and resp = R502 and d = DBAD and st = S and t = T and ts = "[]"
        and pageUrl = "js ''https://example.com/article''"]
    by simp
  have qbad: "fetch (answering T RBAD) B = Inr RBAD" "ok RBAD" "json RBAD = Inr DBAD"
    "data_error DBAD = None" "truthy (summary_text DBAD)" "truthy (audio_base64 DBAD)"
    "orElse (audio_base64 DBAD) [] = js ''!!!!''"
    "invalidCharacterMessage (answering T RBAD) =
       js ''The string to be decoded is not correctly encoded.''"
    by (simp_all add: answering_def RBAD_def DBAD_def data_error_def js_def)
  have dbad: "fst (decodeAudioData (answering T RBAD) (orElse (audio_base64 DBAD) []) S) =
      Inl InvalidCharacterError"
    unfolding qbad(7) by (rule ex_decode_bad)
  have r7: "fst (fetchSummaryAndPlay_try (answering T RBAD) B S) = Some InvalidCharacterError \<and>
   summaryContainer (fetchSummaryAndPlay (answering T RBAD) B S) = [] \<and>
   replayButton_disabled (fetchSummaryAndPlay (answering T RBAD) B S) \<and>
   statusDiv (fetchSummaryAndPlay (answering T RBAD) B S) =
     js ''Error: '' @ js ''The string to be decoded is not correctly encoded.''"
    using qbad(1-6,8) dbad
      fail_fast_no_partial_result [where svc = silent_services and cfg = example_config and req = example_request
        and k = SynthesisFailure and m = "js ''speech service unreachable''" and document = DOC and payload = PAY
        and summary = "js ''A summary.''" and f = F and w = "answering T RBAD" and body = B and e = "InvalidCharacterError"
        and resp = RBAD and d = DBAD and st = S and t = T and ts = "[]"
        and pageUrl = "js ''https://example.com/article''"]
    by simp
  have "run example_services example_config ftp_request =
     ([Extracting], Inl (Failure InvalidInput (js ''unsupported URL scheme''))) \<and>
   run example_services bare_config example_request =
     ([Extracting, Prompting],
      Inl (Failure ConfigurationError (js ''prompt template lacks the text placeholder''))) \<and>
   run example_services example_config unknown_provider_request =
     ([Extracting, Prompting, Summarizing],
      Inl (Failure InvalidInput (js ''unsupported provider''))) \<and>
   run silent_services example_config example_request =
     ([Extracting, Prompting, Summarizing, Synthesizing], Inl F) \<and>
   respond (snd (run silent_services example_config example_request)) =
     \<lparr>error = Some (js ''speech service unreachable''), summary_text = None,
      audio_base64 = None\<rparr> \<and>
   fst (fetchSummaryAndPlay_try (unreachable T) B S) = Some (Rejected (js ''Failed to fetch'')) \<and>
   summaryContainer (fetchSummaryAndPlay (unreachable T) B S) = [] \<and>
   replayButton_disabled (fetchSummaryAndPlay (unreachable T) B S) \<and>
   statusDiv (fetchSummaryAndPlay (unreachable T) B S) = js ''Error: '' @ js ''Failed to fetch'' \<and>
   summaryContainer (fetchSummaryAndPlay (answering T R502) B S) = [] \<and>
   replayButton_disabled (fetchSummaryAndPlay (answering T R502) B S) \<and>
   statusDiv (fetchSummaryAndPlay (answering T R502) B S) =
     js ''Error: '' @ js ''speech service unreachable'' \<and>
   fst (fetchSummaryAndPlay_try (answering T RBAD) B S) = Some InvalidCharacterError \<and>
   summaryContainer (fetchSummaryAndPlay (answering T RBAD) B S) = [] \<and>
   replayButton_disabled (fetchSummaryAndPlay (answering T RBAD) B S) \<and>
   statusDiv (fetchSummaryAndPlay (answering T RBAD) B S) =
     js ''Error: '' @ js ''The string to be decoded is not correctly encoded.'' \<and>
   summaryContainer (popup_opened (answering T R502) S) = [] \<and>
   replayButton_disabled (popup_opened (answering T R502) S) \<and>
   statusDiv (popup_opened (answering T R502) S) = js ''Error: '' @ js ''HTTP error! status: 502''"
    using r1 r2 r3 r4 r5 r6 r7 by (elim conjE) (intro conjI; assumption)
  then show ?thesis unfolding T_def B_def S_def F_def R502_def DBAD_def RBAD_def .
qed

text \<open>
  C4. Every request body that the extension passes to \<open>fetch\<close> has exactly one of the
  two source keys, \<open>url\<close> (a page) or \<open>rss_url\<close> (a feed), and a provider identifier that
  is a string (not empty): this holds of the requests added to the log by a click on the
  summarize button, by a click on the toolbar icon and by the popup that summarizes
  when it opens.
\<close>

theorem request_has_one_source:
  "(\<exists>new. fetches (summarizeButton_click w st) = fetches st @ new \<and>
      list_all (\<lambda>body. (url body = None) \<noteq> (rss_url body = None) \<and>
                        summarizer_choice body \<noteq> []) new) \<and>
   (\<exists>new. bg_fetches (onClicked w t bst) = bg_fetches bst @ new \<and>
      list_all (\<lambda>body. (url body = None) \<noteq> (rss_url body = None) \<and>
                        summarizer_choice body \<noteq> []) new) \<and>
   (\<exists>new. fetches (popup_opened w st) = fetches st @ new \<and>
      list_all (\<lambda>body. (url body = None) \<noteq> (rss_url body = None) \<and>
                        summarizer_choice body \<noteq> []) new)"
proof (intro conjI)
  show "\<exists>new. fetches (summarizeButton_click w st) = fetches st @ new \<and>
      list_all (\<lambda>body. (url body = None) \<noteq> (rss_url body = None) \<and>
                        summarizer_choice body \<noteq> []) new"
    unfolding fetches_click
    by (auto simp add: gemini_nonempty dest: invalid_url_None split: sum.splits list.splits)
  show "\<exists>new. bg_fetches (onClicked w t bst) = bg_fetches bst @ new \<and>
      list_all (\<lambda>body. (url body = None) \<noteq> (rss_url body = None) \<and>
                        summarizer_choice body \<noteq> []) new"
    unfolding bg_fetches_onClicked
    by (auto simp add: gemini_nonempty dest: invalid_url_None)
  show "\<exists>new. fetches (popup_opened w st) = fetches st @ new \<and>
      list_all (\<lambda>body. (url body = None) \<noteq> (rss_url body = None) \<and>
                        summarizer_choice body \<noteq> []) new"
    unfolding fetches_popup_opened
    by (simp add: gemini_nonempty split: sum.splits list.splits option.splits)
qed

theorem request_has_one_source_witness:
  "fetches (summarizeButton_click
      (unreachable \<lparr>tab_id = 1, tab_url = Some (js ''https://example.com/article'')\<rparr>)
      (popup_loaded (js ''current_tab''))) =
   [\<lparr>summarizer_choice = js ''gemini'', url = Some (js ''https://example.com/article''),
     rss_url = None\<rparr>] \<and>
   (\<exists>new. fetches (summarizeButton_click
      (unreachable \<lparr>tab_id = 1, tab_url = Some (js ''https://example.com/article'')\<rparr>)
      (popup_loaded (js ''https://example.com/feed.xml''))) = new \<and>
      list_all (\<lambda>body. (url body = None) \<noteq> (rss_url body = None) \<and>
                        summarizer_choice body \<noteq> []) new)"
  using ex_click_tab
    request_has_one_source [of
      "unreachable \<lparr>tab_id = 1, tab_url = Some (js ''https://example.com/article'')\<rparr>"
      "popup_loaded (js ''https://example.com/feed.xml'')"]
  by (simp add: popup_loaded_def)

text \<open>
  C5. A run that succeeds returns a summary and an encoded audio that are both not
  empty, and its payload has both fields; a response in which \<open>summary_text\<close> or
  \<open>audio_base64\<close> is missing or empty makes \<open>fetchSummaryAndPlay\<close> throw, which ends
  with the error in the status line, the summary empty and the replay button disabled;
  and \<open>fetchSummaryAndPlay\<close> completes without an exception only for a response that is
  \<open>ok\<close> and has both fields, not empty.
\<close>

theorem success_has_summary_and_audio:
  "(snd (run svc cfg req) = Inr (summary, audio) \<longrightarrow>
      summary \<noteq> [] \<and> audio \<noteq> [] \<and>
      respond (snd (run svc cfg req)) =
        \<lparr>error = None, summary_text = Some summary, audio_base64 = Some audio\<rparr>) \<and>
   (fetch w body = Inr resp \<and> json resp = Inr d \<and>
    (\<not> truthy (summary_text d) \<or> \<not> truthy (audio_base64 d)) \<longrightarrow>
      (\<exists>e. fst (fetchSummaryAndPlay_try w body st) = Some e \<and>
           statusDiv (fetchSummaryAndPlay w body st) = js ''Error: '' @ exn_message w e) \<and>
      summaryContainer (fetchSummaryAndPlay w body st) = [] \<and>
      replayButton_disabled (fetchSummaryAndPlay w body st)) \<and>
   (fst (fetchSummaryAndPlay_try w body st) = None \<longrightarrow>
      (\<exists>resp d. fetch w body = Inr resp \<and> ok resp \<and> json resp = Inr d \<and>
         truthy (summary_text d) \<and> truthy (audio_base64 d)))"
proof (intro conjI impI)
  assume a: "snd (run svc cfg req) = Inr (summary, audio)"
  from run_success [OF a] show "summary \<noteq> []" by simp
  from run_success [OF a] show "audio \<noteq> []" by simp
  from a show "respond (snd (run svc cfg req)) =
        \<lparr>error = None, summary_text = Some summary, audio_base64 = Some audio\<rparr>"
    by simp
next
  assume a: "fetch w body = Inr resp \<and> json resp = Inr d \<and>
    (\<not> truthy (summary_text d) \<or> \<not> truthy (audio_base64 d))"
  then obtain e where e: "fst (fetchSummaryAndPlay_try w body st) = Some e"
    using try_missing_fields by blast
  from catch_clears [OF e] e
  show "\<exists>e. fst (fetchSummaryAndPlay_try w body st) = Some e \<and>
           statusDiv (fetchSummaryAndPlay w body st) = js ''Error: '' @ exn_message w e"
    by blast
  from catch_clears [OF e] show "summaryContainer (fetchSummaryAndPlay w body st) = []" by simp
  from catch_clears [OF e] show "replayButton_disabled (fetchSummaryAndPlay w body st)" by simp
next
  assume "fst (fetchSummaryAndPlay_try w body st) = None"
  then show "\<exists>resp d. fetch w body = Inr resp \<and> ok resp \<and> json resp = Inr d \<and>
         truthy (summary_text d) \<and> truthy (audio_base64 d)"
    using try_success by blast
qed

theorem success_has_summary_and_audio_witness:
  "snd (run example_services example_config example_request) =
     Inr (js ''A summary.'', js ''TWFu'') \<and>
   js ''A summary.'' \<noteq> [] \<and> js ''TWFu'' \<noteq> [] \<and>
   fst (fetchSummaryAndPlay_try
      (answering \<lparr>tab_id = 1, tab_url = Some (js ''https://example.com/article'')\<rparr>
         \<lparr>ok = True, status = 200, statusText = js ''OK'',
          json = Inr (respond (Inr (js ''A summary.'', js ''TWFu'')))\<rparr>)
      \<lparr>summarizer_choice = js ''gemini'', url = Some (js ''https://example.com/article''),
       rss_url = None\<rparr>
      (popup_loaded (js ''current_tab''))) = None \<and>
   truthy (summary_text (respond (Inr (js ''A summary.'', js ''TWFu'')))) \<and>
   truthy (audio_base64 (respond (Inr (js ''A summary.'', js ''TWFu'')))) \<and>
   \<not> truthy (audio_base64
        \<lparr>error = None, summary_text = Some (js ''A summary.''), audio_base64 = None\<rparr>) \<and>
   statusDiv (fetchSummaryAndPlay
      (answering \<lparr>tab_id = 1, tab_url = Some (js ''https://example.com/article'')\<rparr>
         \<lparr>ok = True, status = 200, statusText = js ''OK'',
          json = Inr \<lparr>error = None, summary_text = Some (js ''A summary.''),
                      audio_base64 = None\<rparr>\<rparr>)
      \<lparr>summarizer_choice = js ''gemini'', url = Some (js ''https://example.com/article''),
       rss_url = None\<rparr>
      (popup_loaded (js ''current_tab''))) =
     js ''Error: '' @ js ''Server response missing summary or audio data.'' \<and>
   summaryContainer (fetchSummaryAndPlay
      (answering \<lparr>tab_id = 1, tab_url = Some (js ''https://example.com/article'')\<rparr>
         \<lparr>ok = True, status = 200, statusText = js ''OK'',
          json = Inr \<lparr>error = None, summary_text = Some (js ''A summary.''),
                      audio_base64 = None\<rparr>\<rparr>)
      \<lparr>summarizer_choice = js ''gemini'', url = Some (js ''https://example.com/article''),
       rss_url = None\<rparr>
      (popup_loaded (js ''current_tab''))) = [] \<and>
   replayButton_disabled (fetchSummaryAndPlay
      (answering \<lparr>tab_id = 1, tab_url = Some (js ''https://example.com/article'')\<rparr>
         \<lparr>ok = True, status = 200, statusText = js ''OK'',
          json = Inr \<lparr>error = None, summary_text = Some (js ''A summary.''),
                      audio_base64 = None\<rparr>\<rparr>)
      \<lparr>summarizer_choice = js ''gemini'', url = Some (js ''https://example.com/article''),
       rss_url = None\<rparr>
      (popup_loaded (js ''current_tab'')))"
proof -
  define T where "T = \<lparr>tab_id = 1, tab_url = Some (js ''https://example.com/article'')\<rparr>"
  define D where "D = \<lparr>error = None, summary_text = Some (js ''A summary.''),
                      audio_base64 = None\<rparr>"
  define R1 where "R1 = \<lparr>ok = True, status = 200, statusText = js ''OK'',
          json = Inr (respond (Inr (js ''A summary.'', js ''TWFu'')))\<rparr>"
  define R2 where "R2 = \<lparr>ok = True, status = 200, statusText = js ''OK'', json = Inr D\<rparr>"
  define B where "B = \<lparr>summarizer_choice = js ''gemini'',
       url = Some (js ''https://example.com/article''), rss_url = None\<rparr>"
  define S where "S = popup_loaded (js ''current_tab'')"
  have r: "snd (run example_services example_config example_request) =
     Inr (js ''A summary.'', js ''TWFu'')"
    by (simp add: ex_run_trace)
  have t1: "fst (fetchSummaryAndPlay_try (answering T R1) B S) = None"
    unfolding T_def R1_def B_def S_def by (simp only: ex_try_success fst_conv)
  have t2: "fst (fetchSummaryAndPlay_try (answering T R2) B S) =
      Some (Error (js ''Server response missing summary or audio data.''))"
    unfolding T_def R2_def D_def B_def S_def by (rule ex_try_missing_audio)
  have q: "fetch (answering T R2) B = Inr R2" "json R2 = Inr D" "\<not> truthy (audio_base64 D)"
    by (simp_all add: answering_def R2_def D_def)
  have "snd (run example_services example_config example_request) =
     Inr (js ''A summary.'', js ''TWFu'') \<and>
   js ''A summary.'' \<noteq> [] \<and> js ''TWFu'' \<noteq> [] \<and>
   fst (fetchSummaryAndPlay_try (answering T R1) B S) = None \<and>
   truthy (summary_text (respond (Inr (js ''A summary.'', js ''TWFu'')))) \<and>
   truthy (audio_base64 (respond (Inr (js ''A summary.'', js ''TWFu'')))) \<and>
   \<not> truthy (audio_base64 D) \<and>
   statusDiv (fetchSummaryAndPlay (answering T R2) B S) =
     js ''Error: '' @ js ''Server response missing summary or audio data.'' \<and>
   summaryContainer (fetchSummaryAndPlay (answering T R2) B S) = [] \<and>
   replayButton_disabled (fetchSummaryAndPlay (answering T R2) B S)"
    using r t1 t2 q
      success_has_summary_and_audio [where svc = example_services and cfg = example_config
        and req = example_request and summary = "js ''A summary.''" and audio = "js ''TWFu''"
        and w = "answering T R2" and body = B and resp = R2 and d = D and st = S]
      success_has_summary_and_audio [where svc = example_services and cfg = example_config
        and req = example_request and summary = "js ''A summary.''" and audio = "js ''TWFu''"
        and w = "answering T R1" and body = B and resp = R1 and d = D and st = S]
    by (auto simp add: answering_def R1_def)
  then show ?thesis unfolding T_def D_def R1_def R2_def B_def S_def .
qed

text \<open>
  C6. When the user-prompt template does not contain the placeholder, \<open>build\<close> fails
  with a configuration error, whatever the document; when it contains the placeholder,
  \<open>build\<close> succeeds and the user prompt is the template with the extracted text in the
  place of the placeholder, so the text is part of the prompt.
\<close>

theorem build_needs_placeholder:
  "(\<not> str_includes (user_prompt_template cfg) (placeholder cfg) \<longrightarrow>
      (\<exists>m. build document cfg = Inl (Failure ConfigurationError m))) \<and>
   (str_includes (user_prompt_template cfg) (placeholder cfg) \<longrightarrow>
      (\<exists>before after.
          user_prompt_template cfg = before @ placeholder cfg @ after \<and>
          build document cfg =
            Inr \<lparr>system_prompt = system_instruction cfg,
                 user_prompt = before @ raw_text document @ after\<rparr> \<and>
          str_includes (before @ raw_text document @ after) (raw_text document)))"
proof (intro conjI impI)
  assume "\<not> str_includes (user_prompt_template cfg) (placeholder cfg)"
  then have "split_at_placeholder (placeholder cfg) (user_prompt_template cfg) = None"
    by (simp add: split_at_placeholder_None)
  then show "\<exists>m. build document cfg = Inl (Failure ConfigurationError m)"
    by (simp add: build_def)
next
  assume "str_includes (user_prompt_template cfg) (placeholder cfg)"
  then obtain before after
    where s: "split_at_placeholder (placeholder cfg) (user_prompt_template cfg) = Some (before, after)"
    using split_at_placeholder_None [of "placeholder cfg" "user_prompt_template cfg"]
    by (cases "split_at_placeholder (placeholder cfg) (user_prompt_template cfg)") auto
  have "str_includes (before @ raw_text document @ after) (raw_text document)"
    unfolding str_includes_iff by blast
  with s split_at_placeholder_Some [OF s]
  show "\<exists>before after.
          user_prompt_template cfg = before @ placeholder cfg @ after \<and>
          build document cfg =
            Inr \<lparr>system_prompt = system_instruction cfg,
                 user_prompt = before @ raw_text document @ after\<rparr> \<and>
          str_includes (before @ raw_text document @ after) (raw_text document)"
    by (auto simp add: build_def)
qed

theorem build_needs_placeholder_witness:
  "\<not> str_includes (js ''Summarize this.'') (js ''{text}'') \<and>
   (\<exists>m. build \<lparr>raw_text = js ''Hello'', source_url = js ''https://example.com/article''\<rparr>
          \<lparr>system_instruction = js ''Be brief.'', user_prompt_template = js ''Summarize this.'',
           placeholder = js ''{text}''\<rparr> = Inl (Failure ConfigurationError m)) \<and>
   str_includes (js ''Summarize: {text}!'') (js ''{text}'') \<and>
   build \<lparr>raw_text = js ''Hello'', source_url = js ''https://example.com/article''\<rparr>
      \<lparr>system_instruction = js ''Be brief.'', user_prompt_template = js ''Summarize: {text}!'',
       placeholder = js ''{text}''\<rparr> =
     Inr \<lparr>system_prompt = js ''Be brief.'', user_prompt = js ''Summarize: Hello!''\<rparr>"
proof -
  have a: "\<not> str_includes (js ''Summarize this.'') (js ''{text}'')"
    by (simp add: js_def)
  have b: "str_includes (js ''Summarize: {text}!'') (js ''{text}'')"
    by (simp add: js_def)
  have c: "build \<lparr>raw_text = js ''Hello'', source_url = js ''https://example.com/article''\<rparr>
      \<lparr>system_instruction = js ''Be brief.'', user_prompt_template = js ''Summarize: {text}!'',
       placeholder = js ''{text}''\<rparr> =
     Inr \<lparr>system_prompt = js ''Be brief.'', user_prompt = js ''Summarize: Hello!''\<rparr>"
    by (simp add: build_def js_def)
  show ?thesis
    using a b c
      build_needs_placeholder [of
        "\<lparr>system_instruction = js ''Be brief.'', user_prompt_template = js ''Summarize this.'',
          placeholder = js ''{text}''\<rparr>"
        "\<lparr>raw_text = js ''Hello'', source_url = js ''https://example.com/article''\<rparr>"]
      build_needs_placeholder [of
        "\<lparr>system_instruction = js ''Be brief.'', user_prompt_template = js ''Summarize: {text}!'',
          placeholder = js ''{text}''\<rparr>"
        "\<lparr>raw_text = js ''Hello'', source_url = js ''https://example.com/article''\<rparr>"]
    by simp
qed


text \<open>
  C7, as the claim states it, fails: a click on the toolbar icon of a tab whose URL is
  rejected, and a click on the summarize button for such a tab, issue no fetch at all.
\<close>

theorem one_fetch_per_click_counterexample:
  "length (bg_fetches (onClicked
      (unreachable \<lparr>tab_id = 1, tab_url = Some (js ''chrome://extensions/'')\<rparr>)
      \<lparr>tab_id = 1, tab_url = Some (js ''chrome://extensions/'')\<rparr> background_loaded)) = 0 \<and>
   length (fetches (summarizeButton_click
      (unreachable \<lparr>tab_id = 1, tab_url = Some (js ''chrome://extensions/'')\<rparr>)
      (popup_loaded (js ''current_tab'')))) = 0"
  by (simp add: bg_fetches_onClicked fetches_click ex_bad_tab unreachable_def
      background_loaded_def popup_loaded_def)

text \<open>
  C7, amended. Nothing is attempted twice for one request: a click on the toolbar icon
  issues one fetch when the URL of the tab passes the check and none when it is
  rejected; \<open>fetchSummaryAndPlay\<close> issues exactly one fetch and starts at most one
  playback; a click on the summarize button issues one fetch for an RSS feed and for a
  tab whose URL passes the check, and none otherwise; and the orchestrator of the
  specification enters no stage twice.
\<close>

theorem at_most_one_attempt:
  "length (bg_fetches (onClicked w t bst)) =
     length (bg_fetches bst) + (if invalid_url (tab_url t) then 0 else 1) \<and>
   length (fetches (fetchSummaryAndPlay w body st)) = length (fetches st) + 1 \<and>
   length (started (fetchSummaryAndPlay w body st)) \<le> length (started st) + 1 \<and>
   length (fetches (summarizeButton_click w st)) =
     length (fetches st) +
       (if sourceSelect st = js ''current_tab'' then
          (case tabs_query w of
             Inl e \<Rightarrow> 0
           | Inr tabs \<Rightarrow>
               (case tabs of
                  [] \<Rightarrow> 0
                | currentTab # _ \<Rightarrow> if invalid_url (tab_url currentTab) then 0 else 1))
        else 1) \<and>
   distinct (fst (run svc cfg req))"
proof (intro conjI)
  show "length (bg_fetches (onClicked w t bst)) =
     length (bg_fetches bst) + (if invalid_url (tab_url t) then 0 else 1)"
    by (simp add: bg_fetches_onClicked)
  show "length (fetches (fetchSummaryAndPlay w body st)) = length (fetches st) + 1"
    by (simp add: fetches_fetchSummaryAndPlay)
  show "length (started (fetchSummaryAndPlay w body st)) \<le> length (started st) + 1"
    by (rule started_fetchSummaryAndPlay)
  show "length (fetches (summarizeButton_click w st)) =
     length (fetches st) +
       (if sourceSelect st = js ''current_tab'' then
          (case tabs_query w of
             Inl e \<Rightarrow> 0
           | Inr tabs \<Rightarrow>
               (case tabs of
                  [] \<Rightarrow> 0
                | currentTab # _ \<Rightarrow> if invalid_url (tab_url currentTab) then 0 else 1))
        else 1)"
    by (simp add: fetches_click split: sum.splits list.splits)
  show "distinct (fst (run svc cfg req))"
    by (rule distinct_run)
qed

theorem at_most_one_attempt_witness:
  "\<not> invalid_url (Some (js ''https://example.com/article'')) \<and>
   length (bg_fetches (onClicked
      (unreachable \<lparr>tab_id = 1, tab_url = Some (js ''https://example.com/article'')\<rparr>)
      \<lparr>tab_id = 1, tab_url = Some (js ''https://example.com/article'')\<rparr>
      background_loaded)) = 1 \<and>
   length (fetches (summarizeButton_click
      (unreachable \<lparr>tab_id = 1, tab_url = Some (js ''https://example.com/article'')\<rparr>)
      (popup_loaded (js ''https://example.com/feed.xml'')))) = 1 \<and>
   distinct (fst (run example_services example_config example_request)) \<and>
   fst (run example_services example_config example_request) =
     [Extracting, Prompting, Summarizing, Synthesizing, Encoding]"
  using ex_tab ex_run_trace
    at_most_one_attempt [of
      "unreachable \<lparr>tab_id = 1, tab_url = Some (js ''https://example.com/article'')\<rparr>"
      "\<lparr>tab_id = 1, tab_url = Some (js ''https://example.com/article'')\<rparr>"
      background_loaded
      "\<lparr>summarizer_choice = js ''gemini'', url = None,
        rss_url = Some (js ''https://example.com/feed.xml'')\<rparr>"
      "popup_loaded (js ''https://example.com/feed.xml'')"
      example_services example_config example_request]
  by (simp add: background_loaded_def popup_loaded_def js_def)

text \<open>
  C8. \<open>saveOptions\<close> stores the content of the textarea split at line feeds, every piece
  trimmed and the empty pieces removed; \<open>restoreOptions\<close> writes the stored list, joined
  by line feeds, into the textarea; and saving again after restoring stores the same
  list. The last part holds whether or not the restoring read succeeds: when it fails,
  the textarea still holds the text that was saved.
\<close>

theorem save_restore_save:
  "rssFeedList (saveOptions st) =
     Some (filter (\<lambda>feed. 0 < length feed)
             (map trim (split_lf (textarea_value (rssFeedsTextArea st))))) \<and>
   rssFeedsTextArea (restoreOptions False (saveOptions st)) =
     join_lf (filter (\<lambda>feed. 0 < length feed)
                (map trim (split_lf (textarea_value (rssFeedsTextArea st))))) \<and>
   rssFeedList (saveOptions (restoreOptions lastError (saveOptions st))) =
     rssFeedList (saveOptions st)"
  using saved_feeds_read_back [of "rssFeedsTextArea st"]
  by (simp add: saveOptions_def restoreOptions_def Let_def)

theorem save_restore_save_witness:
  "rssFeedList (saveOptions
      \<lparr>rssFeedsTextArea = js '' https://a.example/rss'' @ [13, 10, 10, 9] @ js ''https://b.example/feed '' @ [10],
       options_status = [], rssFeedList = None\<rparr>) =
     Some [js ''https://a.example/rss'', js ''https://b.example/feed''] \<and>
   rssFeedsTextArea (restoreOptions False (saveOptions
      \<lparr>rssFeedsTextArea = js '' https://a.example/rss'' @ [13, 10, 10, 9] @ js ''https://b.example/feed '' @ [10],
       options_status = [], rssFeedList = None\<rparr>)) =
     js ''https://a.example/rss'' @ [10] @ js ''https://b.example/feed'' \<and>
   rssFeedList (saveOptions (restoreOptions False (saveOptions
      \<lparr>rssFeedsTextArea = js '' https://a.example/rss'' @ [13, 10, 10, 9] @ js ''https://b.example/feed '' @ [10],
       options_status = [], rssFeedList = None\<rparr>))) =
     Some [js ''https://a.example/rss'', js ''https://b.example/feed'']"
proof -
  define S where "S =
      \<lparr>rssFeedsTextArea = js '' https://a.example/rss'' @ [13, 10, 10, 9] @ js ''https://b.example/feed '' @ [10],
       options_status = [], rssFeedList = None\<rparr>"
  have ta: "rssFeedsTextArea S =
      js '' https://a.example/rss'' @ [13, 10, 10, 9] @ js ''https://b.example/feed '' @ [10]"
    by (simp add: S_def)
  have e: "filter (\<lambda>feed. 0 < length feed) (map trim (split_lf (textarea_value
      (js '' https://a.example/rss'' @ [13, 10, 10, 9] @ js ''https://b.example/feed '' @ [10])))) =
     [js ''https://a.example/rss'', js ''https://b.example/feed'']"
    by (simp add: js_def trim_def js_whitespace_def)
  have j: "join_lf [js ''https://a.example/rss'', js ''https://b.example/feed''] =
      js ''https://a.example/rss'' @ [10] @ js ''https://b.example/feed''"
    by simp
  have "rssFeedList (saveOptions S) =
      Some [js ''https://a.example/rss'', js ''https://b.example/feed''] \<and>
    rssFeedsTextArea (restoreOptions False (saveOptions S)) =
      js ''https://a.example/rss'' @ [10] @ js ''https://b.example/feed'' \<and>
    rssFeedList (saveOptions (restoreOptions False (saveOptions S))) =
      Some [js ''https://a.example/rss'', js ''https://b.example/feed'']"
    using save_restore_save [of S False] unfolding ta e j by simp
  then show ?thesis unfolding S_def .
qed

text \<open>
  C9. For every string that \<open>atob\<close> does not accept, \<open>base64ToArrayBuffer\<close> creates the
  notification and throws \<open>Error('Invalid Base64 audio data received.')\<close>, returning
  no buffer; for every string that \<open>atob\<close> accepts it returns, with no notification, a
  buffer as long as the decoded binary string.
\<close>

theorem base64ToArrayBuffer_total:
  "(\<not> valid_base64 b \<longrightarrow>
      base64ToArrayBuffer b st =
        (Inl (Error (js ''Invalid Base64 audio data received.'')),
         notifications_create title_playback_error message_bad_audio_data st)) \<and>
   (valid_base64 b \<longrightarrow>
      (\<exists>binaryString buffer.
          atob b = Inr binaryString \<and> base64ToArrayBuffer b st = (Inr buffer, st) \<and>
          length buffer = length binaryString))"
proof (intro conjI impI)
  assume "\<not> valid_base64 b"
  then show "base64ToArrayBuffer b st =
        (Inl (Error (js ''Invalid Base64 audio data received.'')),
         notifications_create title_playback_error message_bad_audio_data st)"
    by (simp add: base64ToArrayBuffer_def atob_invalid)
next
  assume "valid_base64 b"
  then obtain binaryString where "atob b = Inr binaryString"
    using atob_valid by blast
  then show "\<exists>binaryString buffer.
          atob b = Inr binaryString \<and> base64ToArrayBuffer b st = (Inr buffer, st) \<and>
          length buffer = length binaryString"
    by (simp add: base64ToArrayBuffer_def binaryToBytes_map)
qed

theorem base64ToArrayBuffer_total_witness:
  "\<not> valid_base64 (js ''TWF'' @ [0x3002]) \<and>
   base64ToArrayBuffer (js ''TWF'' @ [0x3002]) background_loaded =
     (Inl (Error (js ''Invalid Base64 audio data received.'')),
      notifications_create title_playback_error message_bad_audio_data background_loaded) \<and>
   valid_base64 (js ''TW Fu'') \<and>
   (\<exists>buffer. base64ToArrayBuffer (js ''TW Fu'') background_loaded = (Inr buffer, background_loaded)
      \<and> length buffer = 3)"
proof -
  have i: "\<not> valid_base64 (js ''TWF'' @ [0x3002])"
    by (simp add: valid_base64_def js_def ascii_whitespace_def strip_padding_def b64_index_def)
  have v: "valid_base64 (js ''TW Fu'')"
    by (simp add: valid_base64_def js_def ascii_whitespace_def strip_padding_def b64_index_def)
  have a: "atob (js ''TW Fu'') = Inr [77, 97, 110]"
    by (simp add: atob_def js_def ascii_whitespace_def strip_padding_def b64_index_def)
  show ?thesis
    using i v a base64ToArrayBuffer_total [of "js ''TWF'' @ [0x3002]" background_loaded]
      base64ToArrayBuffer_total [of "js ''TW Fu''" background_loaded]
    by auto
qed

text \<open>
  C10. Every request body that the extension passes to \<open>fetch\<close> carries
  \<open>summarizer_choice = "gemini"\<close>: the requests added to the log by a click on the
  summarize button (for the current tab as for an RSS feed), by a click on the toolbar
  icon and by the popup that summarizes when it opens all have this value.
\<close>

theorem summarizer_choice_gemini:
  "(\<exists>new. fetches (summarizeButton_click w st) = fetches st @ new \<and>
      list_all (\<lambda>body. summarizer_choice body = js ''gemini'') new) \<and>
   (\<exists>new. bg_fetches (onClicked w t bst) = bg_fetches bst @ new \<and>
      list_all (\<lambda>body. summarizer_choice body = js ''gemini'') new) \<and>
   (\<exists>new. fetches (popup_opened w st) = fetches st @ new \<and>
      list_all (\<lambda>body. summarizer_choice body = js ''gemini'') new)"
proof (intro conjI)
  show "\<exists>new. fetches (summarizeButton_click w st) = fetches st @ new \<and>
      list_all (\<lambda>body. summarizer_choice body = js ''gemini'') new"
    unfolding fetches_click by (simp split: sum.splits list.splits)
  show "\<exists>new. bg_fetches (onClicked w t bst) = bg_fetches bst @ new \<and>
      list_all (\<lambda>body. summarizer_choice body = js ''gemini'') new"
    unfolding bg_fetches_onClicked by simp
  show "\<exists>new. fetches (popup_opened w st) = fetches st @ new \<and>
      list_all (\<lambda>body. summarizer_choice body = js ''gemini'') new"
    unfolding fetches_popup_opened by (simp split: sum.splits list.splits option.splits)
qed

theorem summarizer_choice_gemini_witness:
  "fetches (summarizeButton_click
      (unreachable \<lparr>tab_id = 1, tab_url = Some (js ''https://example.com/article'')\<rparr>)
      (popup_loaded (js ''https://example.com/feed.xml''))) =
   [\<lparr>summarizer_choice = js ''gemini'', url = None,
     rss_url = Some (js ''https://example.com/feed.xml'')\<rparr>] \<and>
   (\<exists>new. fetches (summarizeButton_click
      (unreachable \<lparr>tab_id = 1, tab_url = Some (js ''https://example.com/article'')\<rparr>)
      (popup_loaded (js ''current_tab''))) = new \<and>
      list_all (\<lambda>body. summarizer_choice body = js ''gemini'') new)"
  using ex_click_rss
    summarizer_choice_gemini [of
      "unreachable \<lparr>tab_id = 1, tab_url = Some (js ''https://example.com/article'')\<rparr>"
      "popup_loaded (js ''current_tab'')"]
  by (simp add: popup_loaded_def)



end
